theory Spec2Isabelle
  imports Main "HOL-Library.Word"
begin

section \<open>Errors and outcomes\<close>

text \<open>
  The error values of package network that the modelled functions return, and the errors a
  connection can deliver. \<open>OpError t msg\<close> stands for a \<open>*net.OpError\<close> whose
  \<open>Temporary()\<close> answers \<open>t\<close>; \<open>EOF\<close> and \<open>ErrUnexpectedEOF\<close> are the two io errors
  the source names; \<open>Errorf msg\<close> is an error built by \<open>fmt.Errorf\<close>;
  \<open>AddrError\<close> is the \<open>*net.AddrError\<close> of \<open>net.SplitHostPort\<close>, with its reason;
  \<open>ErrSyntax\<close> and \<open>ErrRange\<close> are the \<open>*strconv.NumError\<close> of \<open>strconv\<close>
  with these causes; \<open>OtherError\<close> is any other error value.
\<close>

datatype addr_error =
    missingPort
  | tooManyColons
  | missingBracket
  | unexpectedOpen
  | unexpectedClose

datatype error =
    ErrAlreadyListened
  | ErrAlreadyClosed
  | ErrNotAvailable
  | ErrDuplicatedPacket
  | ErrQueueOverflow
  | OpError bool string
  | EOF
  | ErrUnexpectedEOF
  | Errorf string
  | AddrError addr_error
  | ErrSyntax
  | ErrRange
  | OtherError string

text \<open>
  A Go call either returns or panics. \<open>NilDereference\<close> is the runtime panic of a method
  call through a nil interface value.
\<close>

datatype panic = NilDereference

datatype 'a outcome = Return 'a | Panic panic

section \<open>Listener (network/transport.go)\<close>

text \<open>
  \<open>net.Listener\<close> is an interface of the Go standard library; the model keeps of a
  listener only what \<open>Close\<close> on it answers.
\<close>

record net_Listener =
  ln_close_result :: "error option"

record Listener =
  address :: string
  ln :: "net_Listener option"
  closeCh_open :: bool

text \<open>
  \<open>Listener.Close\<close>, line by line: the guard \<open>l.ln != nil\<close> returns
  \<open>ErrAlreadyClosed\<close>; past the guard the code calls \<open>l.ln.Close()\<close>, which on a nil
  interface panics; on a listener it would return the error of \<open>Close\<close>, or wait for
  \<open>closeCh\<close>, set \<open>l.ln = nil\<close> and return nil.
\<close>

definition Listener_Close :: "Listener \<Rightarrow> (error option) outcome \<times> Listener" where
  "Listener_Close l =
     (if ln l \<noteq> None then (Return (Some ErrAlreadyClosed), l)
      else (case ln l of
              None \<Rightarrow> (Panic NilDereference, l)
            | Some n \<Rightarrow>
                (case ln_close_result n of
                   Some err \<Rightarrow> (Return (Some err), l)
                 | None \<Rightarrow> (Return None, l\<lparr>ln := None\<rparr>))))"

section \<open>Packets, contexts, the priority queue and the duplicate pool\<close>

text \<open>
  \<open>module.PeerID\<close> is an interface over a 20-byte address; a nil interface value is
  \<open>None\<close>. The types \<open>Packet\<close>, \<open>Counter\<close>, \<open>PriorityQueue\<close> and
  \<open>TimestampPool\<close> are declared in other files of the package; the records below
  keep the fields that the methods of \<open>Peer\<close> read and write.
\<close>

type_synonym PeerID = string

record Packet =
  src :: "PeerID option"
  sender :: "PeerID option"
  forceSend :: bool
  hashOfPacket :: nat
  priority :: "8 word"
  payload :: "8 word list"

record Counter =
  peer :: int
  duplicate :: int
  overflow :: int
  enqueue :: int

text \<open>
  A \<open>context.Context\<close> as \<open>sendPacket\<close> builds it: it carries the packet under
  \<open>p2pContextKeyPacket\<close> and the counter under \<open>p2pContextKeyCounter\<close>.
\<close>

record Ctx =
  ctx_packet :: Packet
  ctx_counter :: Counter

text \<open>
  Modelled from the spec: \<open>PeerID.Equal\<close> is declared in another file of the
  package. The spec calls a PeerID comparable and writes the test as
  \<open>pkt.src == peer.id\<close>; a nil argument equals no identifier.
\<close>

definition Equal :: "PeerID \<Rightarrow> PeerID option \<Rightarrow> bool" where
  "Equal i x = (x = Some i)"

text \<open>
  Modelled from the spec: \<open>PriorityQueue\<close> is declared in another file of the
  package. The spec: a bounded multi-level FIFO, for each priority level a FIFO of enqueued contexts;
  \<open>Push(ctx, prio)\<close> returns false if full at that level. \<open>pq_cap\<close> is the bound of
  one level, \<open>levels\<close> the FIFOs, most urgent first. The spec does not say what
  \<open>Push\<close> does with a priority that has no level; here it enqueues nothing and
  returns false.
\<close>

record PriorityQueue =
  pq_cap :: nat
  levels :: "Ctx list list"

definition level_full :: "PriorityQueue \<Rightarrow> nat \<Rightarrow> bool" where
  "level_full pq n = (pq_cap pq \<le> length (levels pq ! n))"

definition Push :: "PriorityQueue \<Rightarrow> Ctx \<Rightarrow> int \<Rightarrow> bool \<times> PriorityQueue" where
  "Push pq ctx prio =
     (if prio < 0 \<or> int (length (levels pq)) \<le> prio then (False, pq)
      else if level_full pq (nat prio) then (False, pq)
      else (True, pq\<lparr>levels := (levels pq)[nat prio := levels pq ! nat prio @ [ctx]]\<rparr>))"

text \<open>
  Modelled from the spec: \<open>TimestampPool\<close> is declared in another file of the
  package. The spec: a sliding-window set of hashes keyed by insertion time. The functions below need only
  \<open>Put\<close> and \<open>Contains\<close>, so the pool is the set of hashes it holds.
\<close>

type_synonym TimestampPool = "nat set"

definition Put :: "TimestampPool \<Rightarrow> nat \<Rightarrow> TimestampPool" where
  "Put tp h = insert h tp"

definition Contains :: "TimestampPool \<Rightarrow> nat \<Rightarrow> bool" where
  "Contains tp h = (h \<in> tp)"

section \<open>Peer (network/transport.go, type Peer)\<close>

text \<open>
  The handlers of the pipeline, as objects: the dispatcher, the channel negotiator, the
  authenticator, and the overlay of a channel.
\<close>

datatype handler =
    PeerDispatcherH
  | ChannelNegotiatorH
  | AuthenticatorH
  | PeerToPeerH string

text \<open>
  A callback slot of a peer holds a function value: one of the two package-level
  defaults, or a method of a handler (\<open>ph.onPacket\<close>, \<open>ph.onError\<close>,
  \<open>ph.onClose\<close>).
\<close>

datatype callback =
    DefaultOnError
  | DefaultOnClose
  | HandlerCb handler

text \<open>
  What a peer does that is visible outside it, in order: closing the connection, closing
  the channel \<open>close\<close>, starting its two routines, calling a callback (with the
  arguments it passes; for the packet callback also the pool the peer has at that moment),
  calling \<open>onPeer\<close> of a handler, and writing a log line.
\<close>

datatype event =
    ConnClosed
  | ChanClosed
  | RoutinesStarted
  | OnCloseCalled callback
  | OnErrorCalled callback error "Packet option"
  | OnPacketCalled callback Packet "nat set"
  | OnPeerCalled handler
  | MetricOnRecv
  | Logged string

record net_Conn =
  conn_close_result :: "error option"

record Peer =
  conn :: net_Conn
  q :: PriorityQueue
  onPacket :: "callback option"
  onError :: "callback option"
  onClose :: "callback option"
  pool :: TimestampPool
  close_closed :: bool
  closed :: "32 word"
  closeReason :: "string list"
  closeErr :: "error list"
  once :: bool
  id_p :: "PeerID option"
  netAddress :: string
  dial :: string
  in_p :: bool
  channel :: string
  events :: "event list"

definition emit :: "event \<Rightarrow> Peer \<Rightarrow> Peer" where
  "emit e p = p\<lparr>events := events p @ [e]\<rparr>"

definition ID :: "Peer \<Rightarrow> PeerID option" where
  "ID p = id_p p"

definition setPacketCbFunc :: "callback option \<Rightarrow> Peer \<Rightarrow> Peer" where
  "setPacketCbFunc cbFunc p =
     (let p1 = p\<lparr>onPacket := cbFunc\<rparr> in
      if cbFunc \<noteq> None then
        (if once p1 then p1 else emit RoutinesStarted (p1\<lparr>once := True\<rparr>))
      else p1)"

definition getPacketCbFunc :: "Peer \<Rightarrow> callback option" where
  "getPacketCbFunc p = onPacket p"

definition setErrorCbFunc :: "callback option \<Rightarrow> Peer \<Rightarrow> Peer" where
  "setErrorCbFunc cbFunc p = p\<lparr>onError := cbFunc\<rparr>"

definition getErrorCbFunc :: "Peer \<Rightarrow> callback option" where
  "getErrorCbFunc p = onError p"

definition setCloseCbFunc :: "callback option \<Rightarrow> Peer \<Rightarrow> Peer" where
  "setCloseCbFunc cbFunc p = p\<lparr>onClose := cbFunc\<rparr>"

definition getCloseCbFunc :: "Peer \<Rightarrow> callback option" where
  "getCloseCbFunc p = onClose p"

text \<open>
  \<open>Peer._close\<close>. The compare-and-swap of \<open>closed\<close> from 0 to 1 decides; the caller
  that wins closes the connection, closes the channel \<open>close\<close> and calls the close
  callback, or \<open>defaultOnClose\<close> when the slot is nil. The bodies of the handlers'
  \<open>onClose\<close> are in other files of the package: the call is recorded, with the callback
  called.
\<close>

definition underscore_close :: "Peer \<Rightarrow> error option \<times> Peer" where
  "underscore_close p =
     (if closed p = 0 then
        (let p1 = p\<lparr>closed := 1\<rparr>;
             err = conn_close_result (conn p1);
             p2 = emit ConnClosed p1;
             p3 = emit ChanClosed (p2\<lparr>close_closed := True\<rparr>)
         in (case getCloseCbFunc p3 of
               Some cbFunc \<Rightarrow> (err, emit (OnCloseCalled cbFunc) p3)
             | None \<Rightarrow> (err, emit (OnCloseCalled DefaultOnClose) p3)))
      else (None, p))"

definition IsClosed :: "Peer \<Rightarrow> bool" where
  "IsClosed p = (closed p = 1)"

definition addCloseReason :: "string \<Rightarrow> Peer \<Rightarrow> Peer" where
  "addCloseReason reason p = p\<lparr>closeReason := closeReason p @ [reason]\<rparr>"

definition Close :: "string \<Rightarrow> Peer \<Rightarrow> error option \<times> Peer" where
  "Close reason p = underscore_close (addCloseReason reason p)"

definition addCloseError :: "error \<Rightarrow> Peer \<Rightarrow> Peer" where
  "addCloseError err p = p\<lparr>closeErr := closeErr p @ [err]\<rparr>"

definition CloseByError :: "error \<Rightarrow> Peer \<Rightarrow> error option \<times> Peer" where
  "CloseByError err p = underscore_close (addCloseError err p)"

text \<open>
  Any number of calls of \<open>Close\<close> and \<open>CloseByError\<close>, in any order. Each call
  decides by one atomic compare-and-swap, so a race of callers is one of these orders.
\<close>

datatype close_call = CallClose string | CallCloseByError error

fun do_close_call :: "close_call \<Rightarrow> Peer \<Rightarrow> Peer" where
  "do_close_call (CallClose reason) p = snd (Close reason p)"
| "do_close_call (CallCloseByError err) p = snd (CloseByError err p)"

fun run_close_calls :: "close_call list \<Rightarrow> Peer \<Rightarrow> Peer" where
  "run_close_calls [] p = p"
| "run_close_calls (c # cs) p = run_close_calls cs (do_close_call c p)"

fun is_OnCloseCalled :: "event \<Rightarrow> bool" where
  "is_OnCloseCalled (OnCloseCalled cb) = True"
| "is_OnCloseCalled e = False"

definition close_callback_calls :: "Peer \<Rightarrow> nat" where
  "close_callback_calls p = length (filter is_OnCloseCalled (events p))"

definition close_channel_closes :: "Peer \<Rightarrow> nat" where
  "close_channel_closes p = count_list (events p) ChanClosed"

text \<open>
  Modelled from the spec: \<open>NewPriorityQueue\<close>, \<open>NewTimestampPool\<close> and the constants
  \<open>DefaultPeerSendQueueSize\<close>, \<open>DefaultSendQueueMaxPriority\<close> and
  \<open>DefaultPeerPoolExpireSecond\<close> are declared in other files of the package. The spec:
  send queue 1000 entries, priority levels 7, priorities \<open>0\<dots>MaxPriority\<close>, peer-pool
  hash expiry 60 s; a new queue and a new pool are empty.
\<close>

definition DefaultPeerSendQueueSize :: nat where
  "DefaultPeerSendQueueSize = 1000"

definition DefaultSendQueueMaxPriority :: nat where
  "DefaultSendQueueMaxPriority = 7"

definition NewPriorityQueue :: "nat \<Rightarrow> nat \<Rightarrow> PriorityQueue" where
  "NewPriorityQueue sz maxPriority = \<lparr>pq_cap = sz, levels = replicate (maxPriority + 1) []\<rparr>"

definition DefaultPeerPoolExpireSecond :: nat where
  "DefaultPeerPoolExpireSecond = 60"

definition NewTimestampPool :: "nat \<Rightarrow> TimestampPool" where
  "NewTimestampPool bucket = {}"

text \<open>
  \<open>newPeer\<close>: the literal of the source, then \<open>setPacketCbFunc(cbFunc)\<close>. The slots
  \<open>id\<close>, \<open>netAddress\<close> and \<open>channel\<close> keep their zero values.
\<close>

definition newPeer :: "net_Conn \<Rightarrow> callback option \<Rightarrow> bool \<Rightarrow> string \<Rightarrow> Peer" where
  "newPeer c cbFunc inb dialAddr =
     setPacketCbFunc cbFunc
       \<lparr>conn = c,
        q = NewPriorityQueue DefaultPeerSendQueueSize DefaultSendQueueMaxPriority,
        onPacket = None,
        onError = Some DefaultOnError,
        onClose = Some DefaultOnClose,
        pool = NewTimestampPool (DefaultPeerPoolExpireSecond + 1),
        close_closed = False,
        closed = 0,
        closeReason = [],
        closeErr = [],
        once = False,
        id_p = None,
        netAddress = [],
        dial = dialAddr,
        in_p = inb,
        channel = [],
        events = []\<rparr>"

subsection \<open>Sending\<close>

text \<open>
  Modelled from the spec: \<open>Packet.updateHash\<close> is declared in another file of the
  package. The spec: \<open>hashOfPacket\<close> is the content hash used for dedup. The method
  leaves a hash in the field \<open>hashOfPacket\<close> and touches no other field; which hash,
  given the argument \<open>force\<close> and the packet, is the parameter \<open>hf\<close>.
\<close>

definition updateHash :: "(bool \<Rightarrow> Packet \<Rightarrow> nat) \<Rightarrow> bool \<Rightarrow> Packet \<Rightarrow> Packet" where
  "updateHash hf force pkt = pkt\<lparr>hashOfPacket := hf force pkt\<rparr>"

text \<open>
  \<open>Peer.isDuplicatedToSend\<close>. \<open>p.ID().Equal(...)\<close> is a method call on the interface
  value \<open>p.ID()\<close>: on a peer whose id is still nil it panics. The packet is passed by
  pointer, so the packet as \<open>updateHash\<close> left it is returned with the answer.
\<close>

definition isDuplicatedToSend ::
  "(bool \<Rightarrow> Packet \<Rightarrow> nat) \<Rightarrow> Peer \<Rightarrow> Packet \<Rightarrow> (bool \<times> Packet) outcome" where
  "isDuplicatedToSend hf p pkt =
     (case ID p of
        None \<Rightarrow> Panic NilDereference
      | Some i \<Rightarrow>
          if Equal i (src pkt) then Return (True, pkt)
          else if \<not> forceSend pkt then
            (if sender pkt \<noteq> None \<and> Equal i (sender pkt) then Return (True, pkt)
             else (let pkt1 = updateHash hf False pkt in
                   if Contains (pool p) (hashOfPacket pkt1) then Return (True, pkt1)
                   else Return (False, pkt1)))
          else Return (False, pkt))"

text \<open>
  \<open>Peer.send\<close>. The receiver may be nil (\<open>None\<close>). The result is the error returned,
  the peer after the call, and the context with the packet and the counter as the call
  left them. The context pushed is the one the caller passed, whose counter has
  \<open>peer\<close> incremented at that moment.
\<close>

definition send ::
  "(bool \<Rightarrow> Packet \<Rightarrow> nat) \<Rightarrow> Peer option \<Rightarrow> Ctx \<Rightarrow> (error option \<times> Peer option \<times> Ctx) outcome" where
  "send hf po ctx =
     (case po of
        None \<Rightarrow> Return (Some ErrNotAvailable, None, ctx)
      | Some p \<Rightarrow>
          if IsClosed p then Return (Some ErrNotAvailable, Some p, ctx)
          else
            (let c = (ctx_counter ctx)\<lparr>peer := peer (ctx_counter ctx) + 1\<rparr>;
                 pkt = ctx_packet ctx
             in (case isDuplicatedToSend hf p pkt of
                   Panic x \<Rightarrow> Panic x
                 | Return (d, pkt1) \<Rightarrow>
                     (let ctx1 = \<lparr>ctx_packet = pkt1, ctx_counter = c\<rparr> in
                      if d then
                        Return (Some ErrDuplicatedPacket, Some p,
                                ctx1\<lparr>ctx_counter := c\<lparr>duplicate := duplicate c + 1\<rparr>\<rparr>)
                      else
                        (case Push (q p) ctx1 (int (unat (priority pkt1))) of
                           (ok, q1) \<Rightarrow>
                             if \<not> ok then
                               Return (Some ErrQueueOverflow, Some p,
                                       ctx1\<lparr>ctx_counter := c\<lparr>overflow := overflow c + 1\<rparr>\<rparr>)
                             else
                               Return (None, Some (p\<lparr>q := q1\<rparr>),
                                       ctx1\<lparr>ctx_counter := c\<lparr>enqueue := enqueue c + 1\<rparr>\<rparr>))))))"

definition sendPacket ::
  "(bool \<Rightarrow> Packet \<Rightarrow> nat) \<Rightarrow> Peer option \<Rightarrow> Packet \<Rightarrow> (error option \<times> Peer option \<times> Ctx) outcome" where
  "sendPacket hf po pkt =
     (let ctx = \<lparr>ctx_packet = pkt,
                 ctx_counter = \<lparr>peer = 0, duplicate = 0, overflow = 0, enqueue = 0\<rparr>\<rparr>
      in (case po of
            None \<Rightarrow> Return (Some ErrNotAvailable, None, ctx)
          | Some p \<Rightarrow>
              if IsClosed p then Return (Some ErrNotAvailable, Some p, ctx)
              else send hf po ctx))"

text \<open>The packets waiting at one level of the send queue of a peer, oldest first.\<close>

definition queued_packets :: "Peer \<Rightarrow> nat \<Rightarrow> Packet list" where
  "queued_packets p n = map ctx_packet (levels (q p) ! n)"

text \<open>The parts of the result of a send: the error, and the peer it leaves.\<close>

definition send_error :: "(error option \<times> Peer option \<times> Ctx) outcome \<Rightarrow> error option outcome" where
  "send_error r = map_outcome fst r"

definition send_peer :: "(error option \<times> Peer option \<times> Ctx) outcome \<Rightarrow> Peer option outcome" where
  "send_peer r = map_outcome (\<lambda>x. fst (snd x)) r"

definition duplicated :: "(bool \<times> Packet) outcome \<Rightarrow> bool outcome" where
  "duplicated r = map_outcome fst r"

subsection \<open>The base handler (type peerHandler)\<close>

text \<open>
  Modelled from the spec: \<open>peerHandler.onError\<close> calls \<open>p.Close()\<close> without a
  reason, a form of \<open>Peer.Close\<close> that is not in this file, where \<open>Close\<close> takes a
  reason. The spec: closing a peer
  closes the underlying connection, closes the close channel exactly once and invokes the
  close callback exactly once, by the atomic compare-and-swap. That is \<open>_close\<close>; a
  call that passes no reason records none.
\<close>

definition Close0 :: "Peer \<Rightarrow> Peer" where
  "Close0 p = snd (underscore_close p)"

text \<open>
  \<open>peerHandler.onError\<close>: a log line, then \<open>p.Close()\<close>. The call is recorded on the
  peer with the handler whose method it is and with its arguments.
  \<open>PeerDispatcher.onError\<close> is this method of the embedded \<open>peerHandler\<close>.
\<close>

definition peerHandler_onError :: "handler \<Rightarrow> error \<Rightarrow> Peer \<Rightarrow> Packet option \<Rightarrow> Peer" where
  "peerHandler_onError ph err p pkt = Close0 (emit (OnErrorCalled (HandlerCb ph) err pkt) p)"

definition PeerDispatcher_onError :: "error \<Rightarrow> Peer \<Rightarrow> Packet option \<Rightarrow> Peer" where
  "PeerDispatcher_onError err p pkt = peerHandler_onError PeerDispatcherH err p pkt"

subsection \<open>Receiving\<close>

text \<open>
  What one call of \<open>p.reader.ReadPacket()\<close> returns: an error, with whatever packet
  came with it, or a packet.
\<close>

datatype read_result = ReadErr error "Packet option" | ReadOk Packet

definition isTemporaryError :: "error \<Rightarrow> bool" where
  "isTemporaryError err = (case err of OpError t m \<Rightarrow> t | _ \<Rightarrow> False)"

text \<open>
  Calling an error callback and a packet callback. \<open>defaultOnError\<close> is
  \<open>p.CloseByError(err)\<close> and the \<open>onError\<close> of the dispatcher is the method above;
  the bodies of the other handlers' methods are in other files of the package, so such a
  call is recorded with its arguments and leaves the rest of the peer as it is.
\<close>

definition call_onError :: "callback \<Rightarrow> error \<Rightarrow> Packet option \<Rightarrow> Peer \<Rightarrow> Peer" where
  "call_onError cbFunc err pkt p =
     (case cbFunc of
        DefaultOnError \<Rightarrow> snd (CloseByError err (emit (OnErrorCalled cbFunc err pkt) p))
      | HandlerCb PeerDispatcherH \<Rightarrow> PeerDispatcher_onError err p pkt
      | _ \<Rightarrow> emit (OnErrorCalled cbFunc err pkt) p)"

definition call_onPacket :: "callback \<Rightarrow> Packet \<Rightarrow> Peer \<Rightarrow> Peer" where
  "call_onPacket cbFunc pkt p = emit (OnPacketCalled cbFunc pkt (pool p)) p"

text \<open>
  The loop of \<open>Peer.receiveRoutine\<close>, over the results that the reader delivers one
  after the other. The loop leaves only by the \<open>return\<close> after a permanent error
  (\<open>Exited\<close>); when the results at hand are used up it is waiting in \<open>ReadPacket\<close>
  (\<open>Reading\<close>). \<open>on_temporary_error\<close> is the branch of the body that calls the error
  callback, \<open>on_packet_read\<close> the part of the body after a read without error.
\<close>

datatype loop_state = Reading | Exited

definition on_temporary_error :: "error \<Rightarrow> Packet option \<Rightarrow> Peer \<Rightarrow> Peer" where
  "on_temporary_error err pkt p =
     (case getErrorCbFunc p of
        Some cbFunc \<Rightarrow> call_onError cbFunc err pkt p
      | None \<Rightarrow> call_onError DefaultOnError err pkt p)"

definition on_packet_read :: "Packet \<Rightarrow> Peer \<Rightarrow> Peer" where
  "on_packet_read pkt p =
     (let pkt1 = pkt\<lparr>sender := ID p\<rparr>;
          p1 = p\<lparr>pool := Put (pool p) (hashOfPacket pkt1)\<rparr>;
          p2 = emit MetricOnRecv p1
      in (case getPacketCbFunc p2 of
            Some cbFunc \<Rightarrow> call_onPacket cbFunc pkt1 p2
          | None \<Rightarrow> emit (Logged ''onPacket in nil, Drop'') p2))"

fun receiveLoop :: "read_result list \<Rightarrow> Peer \<Rightarrow> loop_state \<times> Peer" where
  "receiveLoop [] p = (Reading, p)"
| "receiveLoop (ReadErr err pkt # rs) p =
     (let r = isTemporaryError err in
      if \<not> r then (Exited, snd (CloseByError err p))
      else receiveLoop rs (on_temporary_error err pkt p))"
| "receiveLoop (ReadOk pkt # rs) p = receiveLoop rs (on_packet_read pkt p)"

text \<open>
  \<open>Peer.receiveRoutine\<close>: the loop, and the deferred function, which runs when the
  loop has returned and then calls \<open>p.Close("receiveRoutine finish")\<close>.
\<close>

definition receiveRoutine :: "read_result list \<Rightarrow> Peer \<Rightarrow> loop_state \<times> Peer" where
  "receiveRoutine rs p =
     (case receiveLoop rs p of
        (Exited, p1) \<Rightarrow> (Exited, snd (Close ''receiveRoutine finish'' p1))
      | (Reading, p1) \<Rightarrow> (Reading, p1))"

section \<open>The handler chain and the dispatcher (network/transport.go)\<close>

text \<open>
  The \<open>peerHandler\<close> that every handler embeds: its \<open>next\<close> handler and the id of
  this node. The logger and the codec handle take no part in what follows.
\<close>

record peerHandler =
  next_h :: "handler option"
  self :: "PeerID option"

definition newPeerHandler :: peerHandler where
  "newPeerHandler = \<lparr>next_h = None, self = None\<rparr>"

text \<open>
  The dispatcher, with the handler objects it reaches (\<open>handlerObjs\<close> gives the
  \<open>peerHandler\<close> embedded in each; the dispatcher's own is the one of
  \<open>PeerDispatcherH\<close>), the list \<open>peerHandlers\<close> front to back, and the overlay
  registered for each channel.
\<close>

record PeerDispatcher =
  handlerObjs :: "handler \<Rightarrow> peerHandler"
  peerHandlers :: "handler list"
  p2pMap :: "string \<rightharpoonup> handler"

definition setNext :: "handler \<Rightarrow> handler option \<Rightarrow> PeerDispatcher \<Rightarrow> PeerDispatcher" where
  "setNext ph nxt pd =
     pd\<lparr>handlerObjs := (handlerObjs pd)(ph := (handlerObjs pd ph)\<lparr>next_h := nxt\<rparr>)\<rparr>"

definition setSelfPeerID :: "handler \<Rightarrow> PeerID option \<Rightarrow> PeerDispatcher \<Rightarrow> PeerDispatcher" where
  "setSelfPeerID ph i pd =
     pd\<lparr>handlerObjs := (handlerObjs pd)(ph := (handlerObjs pd ph)\<lparr>self := i\<rparr>)\<rparr>"

text \<open>
  \<open>registPeerHandler\<close>: \<open>PushBack\<close>, and when the new element has a predecessor, the
  new handler's \<open>next\<close> becomes that predecessor.
\<close>

definition registPeerHandler :: "handler \<Rightarrow> PeerDispatcher \<Rightarrow> PeerDispatcher" where
  "registPeerHandler ph pd =
     (let old = peerHandlers pd;
          pd1 = pd\<lparr>peerHandlers := old @ [ph]\<rparr>
      in if old \<noteq> [] then
           setSelfPeerID ph (self (handlerObjs pd1 PeerDispatcherH))
             (setNext ph (Some (last old)) pd1)
         else pd1)"

definition newPeerDispatcher :: "PeerID option \<Rightarrow> handler list \<Rightarrow> PeerDispatcher" where
  "newPeerDispatcher i hs =
     (let pd = \<lparr>handlerObjs = (\<lambda>h. newPeerHandler), peerHandlers = [], p2pMap = Map.empty\<rparr>;
          pd1 = setSelfPeerID PeerDispatcherH i pd;
          pd2 = registPeerHandler PeerDispatcherH pd1
      in foldl (\<lambda>d ph. registPeerHandler ph d) pd2 hs)"

definition registPeerToPeer :: "string \<Rightarrow> PeerDispatcher \<Rightarrow> PeerDispatcher" where
  "registPeerToPeer ch pd = pd\<lparr>p2pMap := (p2pMap pd)(ch \<mapsto> PeerToPeerH ch)\<rparr>"

text \<open>
  \<open>PeerDispatcher.onPeer\<close>: with an overlay for the channel of the peer, the three
  callbacks of the peer become the overlay's and the overlay's \<open>onPeer\<close> is called;
  otherwise an error is built by \<open>fmt.Errorf\<close> and passed to \<open>pd.onError\<close>.
\<close>

definition PeerDispatcher_onPeer :: "PeerDispatcher \<Rightarrow> Peer \<Rightarrow> Peer" where
  "PeerDispatcher_onPeer pd p =
     (case p2pMap pd (channel p) of
        Some p2p \<Rightarrow>
          (let p1 = setPacketCbFunc (Some (HandlerCb p2p)) p;
               p2 = setErrorCbFunc (Some (HandlerCb p2p)) p1;
               p3 = setCloseCbFunc (Some (HandlerCb p2p)) p2
           in emit (OnPeerCalled p2p) p3)
      | None \<Rightarrow>
          (let err = Errorf (''not exists PeerToPeer['' @ channel p @ '']'')
           in PeerDispatcher_onError err p None))"

text \<open>
  \<open>ph.onPeer(p)\<close> through the interface. The dispatcher's is the function above; the
  \<open>onPeer\<close> of the channel negotiator, of the authenticator and of an overlay are in
  other files of the package, and the call is recorded.
\<close>

definition handler_onPeer :: "PeerDispatcher \<Rightarrow> handler \<Rightarrow> Peer \<Rightarrow> Peer" where
  "handler_onPeer pd ph p =
     (case ph of
        PeerDispatcherH \<Rightarrow> PeerDispatcher_onPeer pd p
      | _ \<Rightarrow> emit (OnPeerCalled ph) p)"

text \<open>
  \<open>peerHandler.nextOnPeer\<close>, by which a handler passes the peer on: the callbacks of
  the peer become those of the \<open>next\<close> handler, whose \<open>onPeer\<close> is called.
\<close>

definition nextOnPeer :: "PeerDispatcher \<Rightarrow> handler \<Rightarrow> Peer \<Rightarrow> Peer" where
  "nextOnPeer pd ph p =
     (case next_h (handlerObjs pd ph) of
        Some nxt \<Rightarrow>
          (let p1 = setPacketCbFunc (Some (HandlerCb nxt)) p;
               p2 = setErrorCbFunc (Some (HandlerCb nxt)) p1;
               p3 = setCloseCbFunc (Some (HandlerCb nxt)) p2
           in handler_onPeer pd nxt p3)
      | None \<Rightarrow> p)"

text \<open>
  \<open>dispatchPeer\<close> takes the handler at the back of the list; on an empty list
  \<open>Back()\<close> is nil and \<open>elm.Value\<close> panics.
\<close>

definition dispatchPeer :: "PeerDispatcher \<Rightarrow> Peer \<Rightarrow> Peer outcome" where
  "dispatchPeer pd p =
     (if peerHandlers pd = [] then Panic NilDereference
      else (let ph = last (peerHandlers pd);
                p1 = setPacketCbFunc (Some (HandlerCb ph)) p;
                p2 = setErrorCbFunc (Some (HandlerCb ph)) p1;
                p3 = setCloseCbFunc (Some (HandlerCb ph)) p2
            in Return (handler_onPeer pd ph p3)))"

text \<open>
  \<open>onAccept\<close> and \<open>onConnect\<close>, the callbacks of the listener and of a dialer: a new
  peer for the connection (for a dialed one, with the channel of the dialer and the
  address dialed), given to \<open>dispatchPeer\<close>.
\<close>

record Dialer =
  d_channel :: string

definition onAccept :: "PeerDispatcher \<Rightarrow> net_Conn \<Rightarrow> Peer outcome" where
  "onAccept pd c = dispatchPeer pd (newPeer c None True [])"

definition onConnect :: "PeerDispatcher \<Rightarrow> net_Conn \<Rightarrow> string \<Rightarrow> Dialer \<Rightarrow> Peer outcome" where
  "onConnect pd c addr d =
     dispatchPeer pd ((newPeer c None False [])\<lparr>channel := d_channel d, netAddress := addr\<rparr>)"

text \<open>
  \<open>NewTransport\<close>: the channel negotiator \<open>cn\<close> and the authenticator \<open>a\<close> are made,
  then \<open>newPeerDispatcher(id, cn, a)\<close> and the listener. \<open>i\<close> is the peer id of the
  wallet's address.
\<close>

record transport =
  t_l :: Listener
  t_pd :: PeerDispatcher

definition newListener :: "string \<Rightarrow> Listener" where
  "newListener addr = \<lparr>address = addr, ln = None, closeCh_open = False\<rparr>"

definition NewTransport :: "string \<Rightarrow> PeerID \<Rightarrow> transport" where
  "NewTransport addr i =
     (let cn = ChannelNegotiatorH;
          a = AuthenticatorH;
          pd = newPeerDispatcher (Some i) [cn, a];
          l = newListener addr
      in \<lparr>t_l = l, t_pd = pd\<rparr>)"

text \<open>A peer with its three callbacks set to the methods of one handler.\<close>

definition with_callbacks :: "handler \<Rightarrow> Peer \<Rightarrow> Peer" where
  "with_callbacks ph p =
     setCloseCbFunc (Some (HandlerCb ph))
       (setErrorCbFunc (Some (HandlerCb ph)) (setPacketCbFunc (Some (HandlerCb ph)) p))"

text \<open>The result of a dispatch is a peer on which the \<open>onPeer\<close> of \<open>ph\<close> was called.\<close>

definition handed_to :: "Peer outcome \<Rightarrow> handler \<Rightarrow> bool" where
  "handed_to r ph = (case r of Return p \<Rightarrow> OnPeerCalled ph \<in> set (events p) | Panic x \<Rightarrow> False)"

text \<open>
  Of a run of events: every call of the packet callback passes a packet whose
  \<open>sender\<close> is \<open>i\<close> and whose hash is in the pool of the peer at that moment.
\<close>

fun packet_call_ok :: "PeerID option \<Rightarrow> event \<Rightarrow> bool" where
  "packet_call_ok i (OnPacketCalled cb pkt pl) = (sender pkt = i \<and> Contains pl (hashOfPacket pkt))"
| "packet_call_ok i e = True"

definition packet_calls_ok :: "PeerID option \<Rightarrow> event list \<Rightarrow> bool" where
  "packet_calls_ok i es = list_all (packet_call_ok i) es"

text \<open>
  From \<open>p\<close> to \<open>p1\<close> the id of the peer is the same and the events of \<open>p1\<close> are those
  of \<open>p\<close> followed by events among which every call of the packet callback is as above.
\<close>

definition grows :: "Peer \<Rightarrow> Peer \<Rightarrow> bool" where
  "grows p p1 = (ID p1 = ID p \<and> (\<exists>es. events p1 = events p @ es \<and> packet_calls_ok (ID p) es))"

subsection \<open>A peer and two packets\<close>

text \<open>
  A peer as \<open>newPeer\<close> makes it for an accepted connection, after the authenticator has
  set its id and after it has received a packet with hash 7; a packet that this peer has
  seen and one that it has not; and a hash method that keeps the hash a packet carries.
\<close>

definition peerA :: Peer where
  "peerA = (newPeer \<lparr>conn_close_result = None\<rparr> (Some (HandlerCb AuthenticatorH)) True [])
             \<lparr>id_p := Some ''hxA'', pool := {7}\<rparr>"

definition pktSeen :: Packet where
  "pktSeen = \<lparr>src = Some ''hxB'', sender = Some ''hxC'', forceSend = False,
              hashOfPacket = 7, priority = 3, payload = [0xAA]\<rparr>"

definition pktNew :: Packet where
  "pktNew = \<lparr>src = Some ''hxB'', sender = Some ''hxC'', forceSend = False,
             hashOfPacket = 9, priority = 3, payload = [0xBB]\<rparr>"

definition keepHash :: "bool \<Rightarrow> Packet \<Rightarrow> nat" where
  "keepHash force pkt = hashOfPacket pkt"

section \<open>State sync (service/sync: client.go, manager.go)\<close>

text \<open>
  The sub-protocols of state sync. \<open>module.ProtocolInfo\<close> is a 16-bit tag; the four
  constants are declared in another file of the package and, being the constant cases of
  one \<open>switch\<close>, are distinct; \<open>protoOther\<close> stands for any other tag.
\<close>

datatype ProtocolInfo =
    protoHasNode
  | protoResult
  | protoRequestNodeData
  | protoNodeData
  | protoOther nat

definition configSyncPriority :: nat where
  "configSyncPriority = 3"

definition configExpiredTime :: nat where
  "configExpiredTime = 300"

definition receiveMsg :: nat where
  "receiveMsg = 0"

definition receiveTimeExpired :: nat where
  "receiveTimeExpired = 1"

text \<open>
  The two request messages, with their fields in the order of the struct literals of
  \<open>client.go\<close>. The struct \<open>peer\<close> of the package is declared in another file; its
  \<open>reqID\<close> is an unsigned machine integer, taken here as 32 bits wide.
\<close>

datatype message =
    hasNodeMsg "32 word" "8 word list" "8 word list" "8 word list" "8 word list"
  | requestNodeDataMsg "32 word" nat "8 word list list"

text \<open>
  A timer made by \<open>time.AfterFunc\<close>: its duration in milliseconds, and the call of
  \<open>expired\<close> that its function makes when it fires, as the message type, the protocol
  and the bytes passed (the peer passed is the one that holds the timer).
\<close>

record Timer =
  timer_ms :: nat
  expired_msgType :: nat
  expired_pi :: ProtocolInfo
  expired_b :: "8 word list option"

record sync_peer =
  sp_id :: "PeerID option"
  reqID :: "32 word"
  timer :: "Timer option"

text \<open>
  \<open>module.ProtocolHandler\<close> is the send interface of the network layer. Of \<open>Unicast\<close>
  the client sees the error it returns; \<open>ph_result\<close> gives it for each call, and
  \<open>ph_calls\<close> keeps the calls made, in order.
\<close>

record ProtocolHandler =
  ph_result :: "ProtocolInfo \<Rightarrow> 8 word list \<Rightarrow> PeerID option \<Rightarrow> error option"
  ph_calls :: "(ProtocolInfo \<times> 8 word list \<times> PeerID option) list"

definition Unicast ::
  "ProtocolHandler \<Rightarrow> ProtocolInfo \<Rightarrow> 8 word list \<Rightarrow> PeerID option \<Rightarrow> error option \<times> ProtocolHandler" where
  "Unicast ph pi b i = (ph_result ph pi b i, ph\<lparr>ph_calls := ph_calls ph @ [(pi, b, i)]\<rparr>)"

text \<open>
  The client. \<open>c.MarshalToBytes\<close> is the codec of the node (\<open>codec.MP\<close>); the
  encoding of a message is the parameter \<open>enc\<close>, and as in the source an error of the
  encoder is dropped.
\<close>

record client =
  cl_ph :: ProtocolHandler

definition AfterFunc :: "nat \<Rightarrow> nat \<Rightarrow> ProtocolInfo \<Rightarrow> 8 word list option \<Rightarrow> Timer" where
  "AfterFunc ms msgType pi b =
     \<lparr>timer_ms = ms, expired_msgType = msgType, expired_pi = pi, expired_b = b\<rparr>"

definition hasNode ::
  "(message \<Rightarrow> 8 word list) \<Rightarrow> client \<Rightarrow> sync_peer \<Rightarrow> 8 word list \<Rightarrow> 8 word list \<Rightarrow> 8 word list
     \<Rightarrow> 8 word list \<Rightarrow> error option \<times> sync_peer \<times> client" where
  "hasNode enc cl p wsHash prHash nrHash vh =
     (let reqID1 = reqID p + 1;
          msg = hasNodeMsg reqID1 wsHash vh prHash nrHash;
          b = enc msg
      in (case Unicast (cl_ph cl) protoHasNode b (sp_id p) of
            (Some err, ph1) \<Rightarrow> (Some err, p, cl\<lparr>cl_ph := ph1\<rparr>)
          | (None, ph1) \<Rightarrow>
              (None,
               p\<lparr>reqID := reqID1,
                 timer := Some (AfterFunc (1 * configExpiredTime) receiveTimeExpired protoResult None)\<rparr>,
               cl\<lparr>cl_ph := ph1\<rparr>)))"

definition requestNodeData ::
  "(message \<Rightarrow> 8 word list) \<Rightarrow> client \<Rightarrow> sync_peer \<Rightarrow> 8 word list list \<Rightarrow> nat
     \<Rightarrow> error option \<times> sync_peer \<times> client" where
  "requestNodeData enc cl p hash t =
     (let reqID1 = reqID p + 1;
          msg = requestNodeDataMsg reqID1 t hash;
          b = enc msg
      in (case Unicast (cl_ph cl) protoRequestNodeData b (sp_id p) of
            (Some err, ph1) \<Rightarrow> (Some err, p, cl\<lparr>cl_ph := ph1\<rparr>)
          | (None, ph1) \<Rightarrow>
              (None,
               p\<lparr>reqID := reqID1,
                 timer := Some (AfterFunc (1 * configExpiredTime) receiveTimeExpired protoNodeData None)\<rparr>,
               cl\<lparr>cl_ph := ph1\<rparr>)))"

text \<open>
  Modelled from the spec: \<open>peerPool\<close> and its \<open>getPeer\<close> are declared in another
  file of the package. The spec speaks of the peers in the pool of the manager;
  \<open>getPeer(id)\<close> is the peer of the pool with that id, or nil when there is none.
\<close>

type_synonym peerPool = "sync_peer list"

definition getPeer :: "peerPool \<Rightarrow> PeerID option \<Rightarrow> sync_peer option" where
  "getPeer pl i = find (\<lambda>p. sp_id p = i) pl"

text \<open>
  The manager. The \<open>onReceive\<close> of the server and of the syncer are in other files of
  the package; \<open>m_calls\<close> keeps the calls the manager makes to them, in order.
\<close>

datatype forwarded =
    ServerOnReceive ProtocolInfo "8 word list" sync_peer
  | SyncerOnReceive ProtocolInfo "8 word list" sync_peer

record Manager =
  m_pool :: peerPool
  syncing :: bool
  m_calls :: "forwarded list"

definition OnReceive ::
  "Manager \<Rightarrow> ProtocolInfo \<Rightarrow> 8 word list \<Rightarrow> PeerID option \<Rightarrow> (bool \<times> error option) \<times> Manager" where
  "OnReceive m pi b i =
     (case getPeer (m_pool m) i of
        None \<Rightarrow> ((False, None), m)
      | Some p \<Rightarrow>
          (case pi of
             protoHasNode \<Rightarrow> ((False, None), m\<lparr>m_calls := m_calls m @ [ServerOnReceive pi b p]\<rparr>)
           | protoRequestNodeData \<Rightarrow>
               ((False, None), m\<lparr>m_calls := m_calls m @ [ServerOnReceive pi b p]\<rparr>)
           | protoResult \<Rightarrow>
               (if syncing m
                then ((False, None), m\<lparr>m_calls := m_calls m @ [SyncerOnReceive pi b p]\<rparr>)
                else ((False, None), m))
           | protoNodeData \<Rightarrow>
               (if syncing m
                then ((False, None), m\<lparr>m_calls := m_calls m @ [SyncerOnReceive pi b p]\<rparr>)
                else ((False, None), m))
           | protoOther n \<Rightarrow> ((False, None), m)))"

subsection \<open>A sync peer, two protocol handlers and a manager\<close>

text \<open>
  A peer as \<open>OnJoin\<close> makes it, after 41 requests; a protocol handler whose
  \<open>Unicast\<close> succeeds and one whose \<open>Unicast\<close> fails; an encoding that keeps of a
  message its request id; a manager that holds the peer and is not syncing.
\<close>

definition syncPeerA :: sync_peer where
  "syncPeerA = \<lparr>sp_id = Some ''hxA'', reqID = 41, timer = None\<rparr>"

definition clientOk :: client where
  "clientOk = \<lparr>cl_ph = \<lparr>ph_result = (\<lambda>pi b i. None), ph_calls = []\<rparr>\<rparr>"

definition clientFail :: client where
  "clientFail = \<lparr>cl_ph = \<lparr>ph_result = (\<lambda>pi b i. Some ErrNotAvailable), ph_calls = []\<rparr>\<rparr>"

fun encId :: "message \<Rightarrow> 8 word list" where
  "encId (hasNodeMsg r ws vh pr nr) = [ucast r]"
| "encId (requestNodeDataMsg r t hs) = [ucast r]"

definition managerA :: Manager where
  "managerA = \<lparr>m_pool = [syncPeerA], syncing = False, m_calls = []\<rparr>"

section \<open>NetAddress (network/transport.go)\<close>

text \<open>
  \<open>net.SplitHostPort\<close> and \<open>strconv.ParseInt\<close> are functions of the Go standard
  library. The definitions follow their Go source, statement by statement:
  \<open>SplitHostPort\<close> of \<open>net/ipsock.go\<close>, and \<open>ParseInt\<close> and \<open>ParseUint\<close> of
  \<open>strconv/atoi.go\<close> for base 10 and bit size 64, the arguments \<open>Validate\<close> passes.
  \<open>IndexByte\<close> and \<open>LastIndexByte\<close> give the first and the last index of a byte in a
  string, \<open>None\<close> for the \<open>-1\<close> of Go.
\<close>

fun IndexByte :: "string \<Rightarrow> char \<Rightarrow> nat option" where
  "IndexByte [] c = None"
| "IndexByte (x # xs) c = (if x = c then Some 0 else map_option Suc (IndexByte xs c))"

definition LastIndexByte :: "string \<Rightarrow> char \<Rightarrow> nat option" where
  "LastIndexByte s c = map_option (\<lambda>k. length s - 1 - k) (IndexByte (rev s) c)"

text \<open>
  The end of \<open>SplitHostPort\<close>, common to both branches: no opening bracket from index
  \<open>j\<close> on, no closing bracket from index \<open>k\<close> on, and the port is what follows the
  last colon, at index \<open>i\<close>.
\<close>

definition split_tail :: "string \<Rightarrow> string \<Rightarrow> nat \<Rightarrow> nat \<Rightarrow> nat \<Rightarrow> error + string \<times> string" where
  "split_tail hostport host j k i =
     (if IndexByte (drop j hostport) CHR ''['' \<noteq> None then Inl (AddrError unexpectedOpen)
      else if IndexByte (drop k hostport) CHR '']'' \<noteq> None then Inl (AddrError unexpectedClose)
      else Inr (host, drop (i + 1) hostport))"

definition SplitHostPort :: "string \<Rightarrow> error + string \<times> string" where
  "SplitHostPort hostport =
     (case LastIndexByte hostport CHR '':'' of
        None \<Rightarrow> Inl (AddrError missingPort)
      | Some i \<Rightarrow>
          if hostport ! 0 = CHR ''['' then
            (case IndexByte hostport CHR '']'' of
               None \<Rightarrow> Inl (AddrError missingBracket)
             | Some e \<Rightarrow>
                 if e + 1 = length hostport then Inl (AddrError missingPort)
                 else if e + 1 = i then
                   split_tail hostport (take (e - 1) (drop 1 hostport)) 1 (e + 1) i
                 else if hostport ! (e + 1) = CHR '':'' then Inl (AddrError tooManyColons)
                 else Inl (AddrError missingPort))
          else
            (let host = take i hostport in
             if IndexByte host CHR '':'' \<noteq> None then Inl (AddrError tooManyColons)
             else split_tail hostport host 0 0 i))"

text \<open>
  \<open>ParseUint\<close>: the loop over the bytes of the string, with 64-bit unsigned
  arithmetic written out. \<open>lower\<close> is \<open>c | ('x' - 'X')\<close>, which sets bit 5 of the
  byte. A letter is a digit of a base above 10, so for base 10 it ends in the same syntax
  error as any other byte that is not a decimal digit. On a range error \<open>ParseUint\<close>
  returns the greatest value together with the error.
\<close>

definition maxUint64 :: nat where
  "maxUint64 = 2 ^ 64 - 1"

definition lower :: "nat \<Rightarrow> nat" where
  "lower c = (if c div 32 mod 2 = 0 then c + 32 else c)"

definition ParseUint_step :: "char \<Rightarrow> nat \<Rightarrow> (nat \<times> error option) + nat" where
  "ParseUint_step c n =
     (let b = (of_char c :: nat) in
      if \<not> (48 \<le> b \<and> b \<le> 57) \<and> \<not> (97 \<le> lower b \<and> lower b \<le> 122)
      then Inl (0, Some ErrSyntax)
      else
        (let d = (if 48 \<le> b \<and> b \<le> 57 then b - 48 else lower b - 97 + 10) in
         if 10 \<le> d then Inl (0, Some ErrSyntax)
         else if maxUint64 div 10 + 1 \<le> n then Inl (maxUint64, Some ErrRange)
         else
           (let n10 = (n * 10) mod (maxUint64 + 1);
                n1 = (n10 + d) mod (maxUint64 + 1)
            in if n1 < n10 \<or> maxUint64 < n1 then Inl (maxUint64, Some ErrRange)
               else Inr n1)))"

fun ParseUint_loop :: "string \<Rightarrow> nat \<Rightarrow> nat \<times> error option" where
  "ParseUint_loop [] n = (n, None)"
| "ParseUint_loop (c # cs) n =
     (case ParseUint_step c n of
        Inl r \<Rightarrow> r
      | Inr n1 \<Rightarrow> ParseUint_loop cs n1)"

definition ParseUint :: "string \<Rightarrow> nat \<times> error option" where
  "ParseUint s = (if s = [] then (0, Some ErrSyntax) else ParseUint_loop s 0)"

text \<open>
  \<open>ParseInt\<close>: the sign is taken off, the rest goes to \<open>ParseUint\<close>, and the value
  is checked against \<open>1 << 63\<close>. \<open>to_int64\<close> is the conversion of an integer to
  \<open>int64\<close>, which wraps around.
\<close>

definition to_int64 :: "int \<Rightarrow> int" where
  "to_int64 x = (x + 2 ^ 63) mod 2 ^ 64 - 2 ^ 63"

definition ParseInt :: "string \<Rightarrow> error + int" where
  "ParseInt s =
     (if s = [] then Inl ErrSyntax
      else
        (let neg = (hd s = CHR ''-'');
             s1 = (if hd s = CHR ''+'' then tl s else if hd s = CHR ''-'' then tl s else s)
         in (case ParseUint s1 of
               (un, err) \<Rightarrow>
                 if err \<noteq> None \<and> err \<noteq> Some ErrRange then Inl (the err)
                 else
                   (let cutoff = (2 :: nat) ^ 63 in
                    if \<not> neg \<and> cutoff \<le> un then Inl ErrRange
                    else if neg \<and> cutoff < un then Inl ErrRange
                    else
                      (let n = to_int64 (int un) in
                       Inr (if neg then to_int64 (- n) else n))))))"

text \<open>\<open>NetAddress.Validate\<close>; \<open>None\<close> is the nil error.\<close>

definition Validate :: "string \<Rightarrow> error option" where
  "Validate na =
     (case SplitHostPort na of
        Inl err \<Rightarrow> Some err
      | Inr (host, port) \<Rightarrow>
          (case ParseInt port of
             Inl err \<Rightarrow> Some err
           | Inr i \<Rightarrow>
               if i < 1 \<or> 65535 < i then Some (Errorf (''invalid port '' @ port))
               else None))"

text \<open>
  What it is for a string to be a decimal integer, and its value: an optional sign \<open>+\<close>
  or \<open>-\<close> followed by one or more decimal digits, read in base 10 with no bound on
  its size. An address is valid when it splits into a host and a port and the port is a
  decimal integer from 1 to 65535.
\<close>

definition is_digit :: "char \<Rightarrow> bool" where
  "is_digit c = (48 \<le> (of_char c :: nat) \<and> (of_char c :: nat) \<le> 57)"

definition digit_value :: "char \<Rightarrow> nat" where
  "digit_value c = of_char c - 48"

definition digits_from :: "nat \<Rightarrow> string \<Rightarrow> nat" where
  "digits_from n ds = foldl (\<lambda>a c. 10 * a + digit_value c) n ds"

definition unsigned_decimal :: "string \<Rightarrow> int option" where
  "unsigned_decimal ds =
     (if ds \<noteq> [] \<and> list_all is_digit ds then Some (int (digits_from 0 ds)) else None)"

definition decimal_integer :: "string \<Rightarrow> int option" where
  "decimal_integer s =
     (case s of
        [] \<Rightarrow> None
      | c # cs \<Rightarrow>
          if c = CHR ''+'' then unsigned_decimal cs
          else if c = CHR ''-'' then map_option uminus (unsigned_decimal cs)
          else unsigned_decimal s)"

definition valid_address :: "string \<Rightarrow> bool" where
  "valid_address na =
     (\<exists>host port n. SplitHostPort na = Inr (host, port)
        \<and> decimal_integer port = Some n \<and> 1 \<le> n \<and> n \<le> 65535)"

section \<open>Theorems\<close>

text \<open>
  C8. \<open>Listener.Close\<close> returns \<open>ErrAlreadyClosed\<close> exactly when the field \<open>ln\<close> is
  non-nil, and leaves the listener as it was; when \<open>ln\<close> is nil it goes on to the close
  path, whose first statement \<open>l.ln.Close()\<close> is a call through the nil interface.
\<close>

theorem Listener_Close_inverted:
  "(fst (Listener_Close l) = Return (Some ErrAlreadyClosed)) = (ln l \<noteq> None)
   \<and> Listener_Close l =
       (if ln l = None then (Panic NilDereference, l)
        else (Return (Some ErrAlreadyClosed), l))"
  by (cases "ln l") (simp_all add: Listener_Close_def)

subsection \<open>Closing a peer\<close>

lemma underscore_close_open:
  assumes "closed p = 0"
  shows "closed (snd (underscore_close p)) = 1"
    and "close_callback_calls (snd (underscore_close p)) = close_callback_calls p + 1"
    and "close_channel_closes (snd (underscore_close p)) = close_channel_closes p + 1"
  using assms
  by (simp_all add: underscore_close_def Let_def emit_def getCloseCbFunc_def
      close_callback_calls_def close_channel_closes_def split: option.splits)

lemma do_close_call_closed:
  assumes "closed p = 1"
  shows "closed (do_close_call c p) = 1"
    and "close_callback_calls (do_close_call c p) = close_callback_calls p"
    and "close_channel_closes (do_close_call c p) = close_channel_closes p"
  using assms
  by (cases c; simp add: Close_def CloseByError_def addCloseReason_def addCloseError_def
      underscore_close_def close_callback_calls_def close_channel_closes_def)+

lemma do_close_call_open:
  assumes "closed p = 0"
  shows "closed (do_close_call c p) = 1"
    and "close_callback_calls (do_close_call c p) = close_callback_calls p + 1"
    and "close_channel_closes (do_close_call c p) = close_channel_closes p + 1"
proof -
  have r: "closed (addCloseReason r p) = 0" for r
    using assms by (simp add: addCloseReason_def)
  have e: "closed (addCloseError e p) = 0" for e
    using assms by (simp add: addCloseError_def)
  have cr: "close_callback_calls (addCloseReason r p) = close_callback_calls p"
           "close_channel_closes (addCloseReason r p) = close_channel_closes p" for r
    by (simp_all add: addCloseReason_def close_callback_calls_def close_channel_closes_def)
  have ce: "close_callback_calls (addCloseError e p) = close_callback_calls p"
           "close_channel_closes (addCloseError e p) = close_channel_closes p" for e
    by (simp_all add: addCloseError_def close_callback_calls_def close_channel_closes_def)
  show "closed (do_close_call c p) = 1"
    by (cases c) (simp_all add: Close_def CloseByError_def underscore_close_open r e)
  show "close_callback_calls (do_close_call c p) = close_callback_calls p + 1"
    by (cases c) (simp_all add: Close_def CloseByError_def underscore_close_open r e cr ce)
  show "close_channel_closes (do_close_call c p) = close_channel_closes p + 1"
    by (cases c) (simp_all add: Close_def CloseByError_def underscore_close_open r e cr ce)
qed

lemma run_close_calls_closed:
  "closed p = 1 \<Longrightarrow>
     closed (run_close_calls cs p) = 1
     \<and> close_callback_calls (run_close_calls cs p) = close_callback_calls p
     \<and> close_channel_closes (run_close_calls cs p) = close_channel_closes p"
  by (induction cs arbitrary: p) (simp_all add: do_close_call_closed)

text \<open>
  C2. Take a peer that is not closed and any non-empty sequence of calls of
  \<open>Close(reason)\<close> and \<open>CloseByError(err)\<close>, followed by any further such calls.
  After the first sequence the close callback has been called exactly once more than
  before and the channel \<open>close\<close> has been closed exactly once more than before, and
  \<open>IsClosed()\<close> is true; after the further calls \<open>IsClosed()\<close> is still true and
  both counts are the same.
\<close>

theorem close_exactly_once:
  assumes "closed p = 0" and "calls \<noteq> []"
  shows "close_callback_calls (run_close_calls calls p) = close_callback_calls p + 1
       \<and> close_channel_closes (run_close_calls calls p) = close_channel_closes p + 1
       \<and> IsClosed (run_close_calls calls p)
       \<and> IsClosed (run_close_calls later (run_close_calls calls p))
       \<and> close_callback_calls (run_close_calls later (run_close_calls calls p))
           = close_callback_calls p + 1
       \<and> close_channel_closes (run_close_calls later (run_close_calls calls p))
           = close_channel_closes p + 1"
proof -
  from assms(2) obtain c cs where calls: "calls = c # cs" by (cases calls) auto
  let ?p1 = "do_close_call c p"
  have p1: "closed ?p1 = 1"
    "close_callback_calls ?p1 = close_callback_calls p + 1"
    "close_channel_closes ?p1 = close_channel_closes p + 1"
    using assms(1) by (simp_all add: do_close_call_open)
  have a: "run_close_calls calls p = run_close_calls cs ?p1"
    by (simp add: calls)
  have c1: "closed (run_close_calls cs ?p1) = 1"
    using run_close_calls_closed [OF p1(1), of cs] by simp
  show ?thesis
    unfolding a IsClosed_def
    using run_close_calls_closed [OF p1(1), of cs]
      run_close_calls_closed [OF c1, of later] p1
    by simp
qed

theorem close_exactly_once_witness:
  "closed (newPeer \<lparr>conn_close_result = None\<rparr> None True []) = 0
   \<and> [CallClose ''bye'', CallCloseByError EOF, CallClose ''again''] \<noteq> []
   \<and> close_callback_calls
        (run_close_calls [CallClose ''bye'', CallCloseByError EOF, CallClose ''again'']
           (newPeer \<lparr>conn_close_result = None\<rparr> None True [])) = 1
   \<and> close_channel_closes
        (run_close_calls [CallClose ''bye'', CallCloseByError EOF, CallClose ''again'']
           (newPeer \<lparr>conn_close_result = None\<rparr> None True [])) = 1
   \<and> IsClosed
        (run_close_calls [CallCloseByError ErrUnexpectedEOF]
           (run_close_calls [CallClose ''bye'', CallCloseByError EOF, CallClose ''again'']
              (newPeer \<lparr>conn_close_result = None\<rparr> None True [])))"
proof -
  have z: "closed (newPeer \<lparr>conn_close_result = None\<rparr> None True []) = 0"
    by (simp add: newPeer_def setPacketCbFunc_def)
  have n: "[CallClose ''bye'', CallCloseByError EOF, CallClose ''again''] \<noteq> []"
    by simp
  have e: "close_callback_calls (newPeer \<lparr>conn_close_result = None\<rparr> None True []) = 0"
    "close_channel_closes (newPeer \<lparr>conn_close_result = None\<rparr> None True []) = 0"
    by (simp_all add: newPeer_def setPacketCbFunc_def close_callback_calls_def
        close_channel_closes_def)
  show ?thesis
    using close_exactly_once [OF z n, of "[CallCloseByError ErrUnexpectedEOF]"] z e
    by simp
qed

subsection \<open>Sending to a peer\<close>

lemma duplicated_isDuplicatedToSend:
  assumes "ID p = Some i"
  shows "duplicated (isDuplicatedToSend hf p pkt) =
           Return (src pkt = Some i
                   \<or> (\<not> forceSend pkt
                       \<and> (sender pkt = Some i
                           \<or> Contains (pool p) (hashOfPacket (updateHash hf False pkt)))))"
  using assms
  by (simp add: duplicated_def isDuplicatedToSend_def Equal_def Let_def)

lemma send_duplicated:
  assumes "duplicated (isDuplicatedToSend hf p (ctx_packet ctx)) = Return True"
  shows "send_peer (send hf (Some p) ctx) = Return (Some p)"
    and "send_error (send hf (Some p) ctx) =
           Return (Some (if IsClosed p then ErrNotAvailable else ErrDuplicatedPacket))"
  using assms
  by (auto simp: duplicated_def send_def send_peer_def send_error_def Let_def
      split: outcome.splits prod.splits)

lemma sendPacket_send:
  "sendPacket hf po pkt =
     send hf po \<lparr>ctx_packet = pkt,
                 ctx_counter = \<lparr>peer = 0, duplicate = 0, overflow = 0, enqueue = 0\<rparr>\<rparr>"
  by (simp add: sendPacket_def send_def Let_def split: option.splits)

text \<open>
  C3. For a peer whose id is set, \<open>isDuplicatedToSend(pkt)\<close> answers true exactly when
  \<open>pkt.src\<close> equals the id of the peer, or \<open>pkt.forceSend\<close> is false and either
  \<open>pkt.sender\<close> equals the id or the pool of the peer contains the hash of the packet
  (the hash \<open>updateHash(false)\<close> leaves in it); with \<open>forceSend\<close> true the last two
  tests are skipped. When it answers true, \<open>sendPacket\<close> and \<open>send\<close> leave the peer,
  and so its send queue, as it was.
\<close>

theorem isDuplicatedToSend_spec:
  assumes "ID p = Some i"
  shows "duplicated (isDuplicatedToSend hf p pkt) =
           Return (src pkt = Some i
                   \<or> (\<not> forceSend pkt
                       \<and> (sender pkt = Some i
                           \<or> Contains (pool p) (hashOfPacket (updateHash hf False pkt)))))
       \<and> (duplicated (isDuplicatedToSend hf p pkt) = Return True \<longrightarrow>
            send_peer (sendPacket hf (Some p) pkt) = Return (Some p)
            \<and> (\<forall>c. send_peer (send hf (Some p) \<lparr>ctx_packet = pkt, ctx_counter = c\<rparr>) = Return (Some p)))"
proof -
  have "send_peer (send hf (Some p) \<lparr>ctx_packet = pkt, ctx_counter = c\<rparr>) = Return (Some p)"
    if "duplicated (isDuplicatedToSend hf p pkt) = Return True" for c
    using send_duplicated(1) [of hf p "\<lparr>ctx_packet = pkt, ctx_counter = c\<rparr>"] that by simp
  then show ?thesis
    using duplicated_isDuplicatedToSend [OF assms, of hf pkt]
    by (simp add: sendPacket_send)
qed

lemma Push_in_range:
  assumes "n < length (levels pq)"
  shows "Push pq ctx (int n) =
           (if level_full pq n then (False, pq)
            else (True, pq\<lparr>levels := (levels pq)[n := levels pq ! n @ [ctx]]\<rparr>))"
  using assms by (simp add: Push_def)

lemma isDuplicatedToSend_returns:
  assumes "ID p = Some i"
  shows "\<exists>d pkt1. isDuplicatedToSend hf p pkt = Return (d, pkt1)
           \<and> priority pkt1 = priority pkt
           \<and> (\<not> d \<longrightarrow> pkt1 = (if forceSend pkt then pkt else updateHash hf False pkt))"
  using assms
  by (auto simp: isDuplicatedToSend_def Let_def updateHash_def)

lemma queued_packets_update:
  assumes "n < length (levels (q p))"
  shows "queued_packets (p\<lparr>q := (q p)\<lparr>levels := (levels (q p))[n := levels (q p) ! n @ [c]]\<rparr>\<rparr>) m =
           (if m = n then queued_packets p n @ [ctx_packet c] else queued_packets p m)"
  using assms by (simp add: queued_packets_def)

text \<open>
  C4. \<open>Peer.send\<close> on a nil peer or a closed peer returns \<open>ErrNotAvailable\<close>;
  otherwise, for a packet that is duplicated to send, \<open>ErrDuplicatedPacket\<close>;
  otherwise, when the FIFO of the queue at the priority of the packet is full,
  \<open>ErrQueueOverflow\<close>; in these cases the peer and its queue are as before. Otherwise
  it returns nil and the packet is the new last element of the FIFO at its priority, the
  other FIFOs being as before. \<open>sendPacket\<close> is \<open>send\<close> on a context with the packet
  and a fresh counter. The peer has its id set and the priority of the packet is one of
  the levels of the queue.
\<close>

theorem send_result:
  assumes "ID p = Some i"
    and "n = unat (priority (ctx_packet ctx))"
    and "n < length (levels (q p))"
    and "duplicated (isDuplicatedToSend hf p (ctx_packet ctx)) = Return d"
  shows "send_error (send hf None ctx) = Return (Some ErrNotAvailable)
       \<and> send_peer (send hf None ctx) = Return None
       \<and> sendPacket hf po pkt =
           send hf po \<lparr>ctx_packet = pkt,
                       ctx_counter = \<lparr>peer = 0, duplicate = 0, overflow = 0, enqueue = 0\<rparr>\<rparr>
       \<and> send_error (send hf (Some p) ctx) =
           Return (if IsClosed p then Some ErrNotAvailable
                   else if d then Some ErrDuplicatedPacket
                   else if level_full (q p) n then Some ErrQueueOverflow
                   else None)
       \<and> (IsClosed p \<or> d \<or> level_full (q p) n \<longrightarrow>
            send_peer (send hf (Some p) ctx) = Return (Some p))
       \<and> (\<not> IsClosed p \<and> \<not> d \<and> \<not> level_full (q p) n \<longrightarrow>
            (\<exists>p1. send_peer (send hf (Some p) ctx) = Return (Some p1)
                  \<and> queued_packets p1 n =
                      queued_packets p n
                        @ [if forceSend (ctx_packet ctx) then ctx_packet ctx
                           else updateHash hf False (ctx_packet ctx)]
                  \<and> (\<forall>m. m \<noteq> n \<longrightarrow> queued_packets p1 m = queued_packets p m)))"
proof -
  obtain d1 pkt1 where r: "isDuplicatedToSend hf p (ctx_packet ctx) = Return (d1, pkt1)"
    and pr: "priority pkt1 = priority (ctx_packet ctx)"
    and pk: "\<not> d1 \<Longrightarrow> pkt1 = (if forceSend (ctx_packet ctx) then ctx_packet ctx
                                else updateHash hf False (ctx_packet ctx))"
    using isDuplicatedToSend_returns [OF assms(1), of hf "ctx_packet ctx"] by blast
  have d: "d1 = d"
    using assms(4) r by (simp add: duplicated_def)
  have "unat (priority pkt1) = n"
    using pr assms(2) by simp
  then have n: "uint (priority pkt1) = int n"
    by (simp add: uint_nat)
  have nil: "send hf None ctx = Return (Some ErrNotAvailable, None, ctx)"
    by (simp add: send_def)
  have closed: "send hf (Some p) ctx = Return (Some ErrNotAvailable, Some p, ctx)" if "IsClosed p"
    using that by (simp add: send_def)
  have dup: "send_error (send hf (Some p) ctx) = Return (Some ErrDuplicatedPacket)
           \<and> send_peer (send hf (Some p) ctx) = Return (Some p)" if "\<not> IsClosed p" "d"
    using that r d by (simp add: send_def Let_def send_error_def send_peer_def)
  have full: "send_error (send hf (Some p) ctx) = Return (Some ErrQueueOverflow)
           \<and> send_peer (send hf (Some p) ctx) = Return (Some p)"
    if "\<not> IsClosed p" "\<not> d" "level_full (q p) n"
    using that r d n assms(3)
    by (simp add: send_def Let_def send_error_def send_peer_def Push_in_range)
  have ok: "send_error (send hf (Some p) ctx) = Return None
           \<and> send_peer (send hf (Some p) ctx) =
               Return (Some (p\<lparr>q := (q p)\<lparr>levels := (levels (q p))
                 [n := levels (q p) ! n @ [\<lparr>ctx_packet = pkt1,
                    ctx_counter = (ctx_counter ctx)\<lparr>peer := peer (ctx_counter ctx) + 1\<rparr>\<rparr>]]\<rparr>\<rparr>))"
    if "\<not> IsClosed p" "\<not> d" "\<not> level_full (q p) n"
    using that r d n assms(3)
    by (simp add: send_def Let_def send_error_def send_peer_def Push_in_range)
  have e: "send_error (send hf (Some p) ctx) =
           Return (if IsClosed p then Some ErrNotAvailable
                   else if d then Some ErrDuplicatedPacket
                   else if level_full (q p) n then Some ErrQueueOverflow
                   else None)"
    using closed dup full ok by (simp add: send_error_def)
  have u: "send_peer (send hf (Some p) ctx) = Return (Some p)"
    if "IsClosed p \<or> d \<or> level_full (q p) n"
    using that closed dup full by (cases "IsClosed p"; cases d) (auto simp: send_peer_def)
  have s: "\<exists>p1. send_peer (send hf (Some p) ctx) = Return (Some p1)
                  \<and> queued_packets p1 n =
                      queued_packets p n
                        @ [if forceSend (ctx_packet ctx) then ctx_packet ctx
                           else updateHash hf False (ctx_packet ctx)]
                  \<and> (\<forall>m. m \<noteq> n \<longrightarrow> queued_packets p1 m = queued_packets p m)"
    if "\<not> IsClosed p" "\<not> d" "\<not> level_full (q p) n"
    using ok [OF that] pk d that(2) queued_packets_update [OF assms(3)]
    by simp
  show ?thesis
    using nil e u s sendPacket_send [of hf po pkt] by (simp add: send_error_def send_peer_def)
qed


theorem isDuplicatedToSend_spec_witness:
  "ID peerA = Some ''hxA''
   \<and> duplicated (isDuplicatedToSend keepHash peerA pktSeen) = Return True
   \<and> send_peer (sendPacket keepHash (Some peerA) pktSeen) = Return (Some peerA)"
proof -
  have i: "ID peerA = Some ''hxA''"
    by (simp add: peerA_def ID_def)
  have c: "Contains (pool peerA) (hashOfPacket (updateHash keepHash False pktSeen))"
    by (simp add: peerA_def Contains_def updateHash_def keepHash_def pktSeen_def)
  have f: "\<not> forceSend pktSeen"
    by (simp add: pktSeen_def)
  show ?thesis
    using isDuplicatedToSend_spec [OF i, of keepHash pktSeen] i c f by simp
qed

theorem send_result_witness:
  "ID peerA = Some ''hxA''
   \<and> 3 = unat (priority pktNew)
   \<and> 3 < length (levels (q peerA))
   \<and> duplicated (isDuplicatedToSend keepHash peerA pktNew) = Return False
   \<and> send_error (send keepHash (Some peerA)
        \<lparr>ctx_packet = pktNew, ctx_counter = \<lparr>peer = 0, duplicate = 0, overflow = 0, enqueue = 0\<rparr>\<rparr>)
       = Return None"
proof -
  let ?ctx = "\<lparr>ctx_packet = pktNew, ctx_counter = \<lparr>peer = 0, duplicate = 0, overflow = 0, enqueue = 0\<rparr>\<rparr>"
  have i: "ID peerA = Some ''hxA''"
    by (simp add: peerA_def ID_def)
  have n: "3 = unat (priority (ctx_packet ?ctx))"
    by (simp add: pktNew_def)
  have l: "3 < length (levels (q peerA))"
    by (simp add: peerA_def newPeer_def setPacketCbFunc_def emit_def NewPriorityQueue_def
        DefaultSendQueueMaxPriority_def)
  have pl: "pool peerA = {7}"
    by (simp add: peerA_def)
  have d: "duplicated (isDuplicatedToSend keepHash peerA (ctx_packet ?ctx)) = Return False"
    by (simp add: duplicated_def isDuplicatedToSend_def i Equal_def pktNew_def Let_def
        updateHash_def keepHash_def Contains_def pl)
  have c: "\<not> IsClosed peerA"
    by (simp add: peerA_def newPeer_def setPacketCbFunc_def emit_def IsClosed_def)
  have f: "\<not> level_full (q peerA) 3"
    by (simp add: peerA_def newPeer_def setPacketCbFunc_def emit_def level_full_def
        NewPriorityQueue_def DefaultSendQueueMaxPriority_def DefaultPeerSendQueueSize_def)
  show ?thesis
    using send_result [OF i n l d] i n l d c f by simp
qed

subsection \<open>The receive loop\<close>

lemma grows_refl: "grows p p"
  by (simp add: grows_def packet_calls_ok_def)

lemma grows_trans: "grows p p1 \<Longrightarrow> grows p1 p2 \<Longrightarrow> grows p p2"
  by (auto simp: grows_def packet_calls_ok_def)

lemma grows_underscore_close: "grows p (snd (underscore_close p))"
  by (simp add: grows_def underscore_close_def Let_def emit_def ID_def packet_calls_ok_def
      getCloseCbFunc_def split: option.splits)

lemma grows_CloseByError: "grows p (snd (CloseByError err p))"
proof -
  have "grows p (addCloseError err p)"
    by (simp add: grows_def addCloseError_def ID_def packet_calls_ok_def)
  then show ?thesis
    unfolding CloseByError_def using grows_underscore_close grows_trans by blast
qed

lemma grows_Close: "grows p (snd (Close reason p))"
proof -
  have "grows p (addCloseReason reason p)"
    by (simp add: grows_def addCloseReason_def ID_def packet_calls_ok_def)
  then show ?thesis
    unfolding Close_def using grows_underscore_close grows_trans by blast
qed

lemma grows_emit: "packet_call_ok (ID p) e \<Longrightarrow> grows p (emit e p)"
  by (simp add: grows_def emit_def ID_def packet_calls_ok_def)

lemma grows_Close0: "grows p (Close0 p)"
  by (simp add: Close0_def grows_underscore_close)

lemma grows_peerHandler_onError: "grows p (peerHandler_onError ph err p pkt)"
proof -
  have "grows p (emit (OnErrorCalled (HandlerCb ph) err pkt) p)"
    by (simp add: grows_emit)
  then show ?thesis
    unfolding peerHandler_onError_def using grows_Close0 grows_trans by blast
qed

lemma peerHandler_onError_events:
  "\<exists>es. events (peerHandler_onError ph err p pkt) =
          events p @ OnErrorCalled (HandlerCb ph) err pkt # es"
  using grows_Close0 [of "emit (OnErrorCalled (HandlerCb ph) err pkt) p"]
  by (auto simp: peerHandler_onError_def grows_def emit_def)

lemma call_onError_events:
  "\<exists>es. events (call_onError cb err pkt p) = events p @ OnErrorCalled cb err pkt # es"
proof (cases cb)
  case DefaultOnError
  have "grows (emit (OnErrorCalled cb err pkt) p)
          (snd (CloseByError err (emit (OnErrorCalled cb err pkt) p)))"
    by (rule grows_CloseByError)
  then show ?thesis
    using DefaultOnError by (auto simp: call_onError_def grows_def emit_def)
next
  case DefaultOnClose
  then show ?thesis
    by (simp add: call_onError_def emit_def)
next
  case (HandlerCb h)
  then show ?thesis
    using peerHandler_onError_events [of PeerDispatcherH err p pkt]
    by (cases h) (simp_all add: call_onError_def emit_def PeerDispatcher_onError_def)
qed

lemma grows_call_onError: "grows p (call_onError cb err pkt p)"
proof (cases cb)
  case DefaultOnError
  have "grows p (emit (OnErrorCalled cb err pkt) p)"
    by (simp add: grows_emit)
  then show ?thesis
    using DefaultOnError grows_CloseByError [of "emit (OnErrorCalled cb err pkt) p" err]
      grows_trans
    by (simp add: call_onError_def)
next
  case DefaultOnClose
  then show ?thesis
    by (simp add: call_onError_def grows_emit)
next
  case (HandlerCb h)
  then show ?thesis
    using grows_peerHandler_onError [of p PeerDispatcherH err pkt]
    by (cases h) (simp_all add: call_onError_def grows_emit PeerDispatcher_onError_def)
qed

lemma grows_ReadOk: "grows p (on_packet_read pk p)"
  by (simp add: on_packet_read_def grows_def Let_def emit_def call_onPacket_def ID_def Put_def
      Contains_def packet_calls_ok_def getPacketCbFunc_def split: option.splits)

lemma grows_on_temporary_error: "grows p (on_temporary_error err pkt p)"
  by (simp add: on_temporary_error_def grows_call_onError split: option.splits)

lemma grows_receiveLoop: "grows p (snd (receiveLoop rs p))"
proof (induction rs p rule: receiveLoop.induct)
  case (1 p)
  show ?case by (simp add: grows_refl)
next
  case (2 err pkt rs p)
  show ?case
  proof (cases "isTemporaryError err")
    case False
    then show ?thesis by (simp add: grows_CloseByError)
  next
    case True
    have "grows (on_temporary_error err pkt p) (snd (receiveLoop rs (on_temporary_error err pkt p)))"
      using 2 True by simp
    then have "grows p (snd (receiveLoop rs (on_temporary_error err pkt p)))"
      using grows_on_temporary_error grows_trans by blast
    then show ?thesis
      using True by simp
  qed
next
  case (3 pkt rs p)
  have "grows (on_packet_read pkt p) (snd (receiveLoop rs (on_packet_read pkt p)))"
    using 3 by simp
  then show ?case
    using grows_ReadOk grows_trans by simp blast
qed

lemma on_temporary_error_events:
  "\<exists>es. events (on_temporary_error err pkt p) =
          events p @ OnErrorCalled (case getErrorCbFunc p of Some c \<Rightarrow> c | None \<Rightarrow> DefaultOnError)
                       err pkt # es"
  using call_onError_events
  by (simp add: on_temporary_error_def split: option.splits)

lemma on_packet_read_effect:
  "pool (on_packet_read pk p) = Put (pool p) (hashOfPacket pk)"
  "getPacketCbFunc p = Some cb \<Longrightarrow>
     events (on_packet_read pk p) =
       events p @ [MetricOnRecv,
                   OnPacketCalled cb (pk\<lparr>sender := ID p\<rparr>) (Put (pool p) (hashOfPacket pk))]"
  by (simp_all add: on_packet_read_def Let_def emit_def call_onPacket_def getPacketCbFunc_def
      split: option.splits)

lemma CloseByError_IsClosed:
  "closed p = 0 \<or> closed p = 1 \<Longrightarrow> IsClosed (snd (CloseByError err p))"
  by (auto simp: CloseByError_def addCloseError_def underscore_close_def Let_def IsClosed_def
      emit_def getCloseCbFunc_def split: option.splits)

text \<open>
  C5. In the receive loop an error is temporary exactly when it is a \<open>*net.OpError\<close>
  whose \<open>Temporary()\<close> is true. On an error that is not temporary the peer is closed
  by \<open>CloseByError\<close> and the loop exits, whatever the reader would deliver next (the
  deferred \<open>Close("receiveRoutine finish")\<close> follows). On a temporary error the error
  callback of the peer, or \<open>defaultOnError\<close> when the slot is nil, is called with the
  error and the loop goes on with the next read. After a read without error the hash of
  the packet is put into the pool of the peer, and the packet callback, when there is
  one, is called with the packet whose \<open>sender\<close> is the id of the peer, the pool
  holding the hash at that moment. Over a whole run of the loop, and of the routine,
  every call of the packet callback is so.
\<close>

theorem receiveRoutine_spec:
  "isTemporaryError err = (\<exists>m. err = OpError True m)
   \<and> (\<not> isTemporaryError err \<longrightarrow>
        receiveLoop (ReadErr err pkt # rs) p = (Exited, snd (CloseByError err p))
        \<and> receiveRoutine (ReadErr err pkt # rs) p =
            (Exited, snd (Close ''receiveRoutine finish'' (snd (CloseByError err p))))
        \<and> (closed p = 0 \<or> closed p = 1 \<longrightarrow> IsClosed (snd (CloseByError err p))))
   \<and> (isTemporaryError err \<longrightarrow>
        receiveLoop (ReadErr err pkt # rs) p = receiveLoop rs (on_temporary_error err pkt p)
        \<and> (\<exists>es. events (on_temporary_error err pkt p) =
                   events p @ OnErrorCalled (case getErrorCbFunc p of Some c \<Rightarrow> c
                                              | None \<Rightarrow> DefaultOnError) err pkt # es))
   \<and> receiveLoop (ReadOk pk # rs) p = receiveLoop rs (on_packet_read pk p)
   \<and> pool (on_packet_read pk p) = Put (pool p) (hashOfPacket pk)
   \<and> (getPacketCbFunc p = Some cb \<longrightarrow>
        events (on_packet_read pk p) =
          events p @ [MetricOnRecv,
                      OnPacketCalled cb (pk\<lparr>sender := ID p\<rparr>) (Put (pool p) (hashOfPacket pk))])
   \<and> (\<exists>es. events (snd (receiveLoop rs p)) = events p @ es \<and> packet_calls_ok (ID p) es)
   \<and> (\<exists>es. events (snd (receiveRoutine rs p)) = events p @ es \<and> packet_calls_ok (ID p) es)"
proof -
  have t: "isTemporaryError err = (\<exists>m. err = OpError True m)"
    by (cases err) (simp_all add: isTemporaryError_def)
  have l: "grows p (snd (receiveLoop rs p))"
    by (rule grows_receiveLoop)
  have "grows p (snd (receiveRoutine rs p))"
  proof (cases "receiveLoop rs p")
    case (Pair st p1)
    then have "grows p p1" using l by simp
    then show ?thesis
      using Pair grows_Close [of p1 "''receiveRoutine finish''"] grows_trans
      by (cases st) (auto simp: receiveRoutine_def)
  qed
  then show ?thesis
    using t l on_temporary_error_events [of err pkt p] on_packet_read_effect(1) [of pk p] on_packet_read_effect(2) [of p cb pk]
      CloseByError_IsClosed [of p err]
    by (simp add: receiveRoutine_def grows_def)
qed


theorem receiveRoutine_spec_witness:
  "\<not> isTemporaryError EOF
   \<and> receiveRoutine [ReadErr EOF None, ReadOk pktSeen] peerA =
       (Exited, snd (Close ''receiveRoutine finish'' (snd (CloseByError EOF peerA))))
   \<and> (closed peerA = 0 \<or> closed peerA = 1)
   \<and> IsClosed (snd (CloseByError EOF peerA))
   \<and> isTemporaryError (OpError True ''i/o timeout'')
   \<and> receiveLoop [ReadErr (OpError True ''i/o timeout'') None, ReadOk pktSeen] peerA =
       receiveLoop [ReadOk pktSeen] (on_temporary_error (OpError True ''i/o timeout'') None peerA)
   \<and> getPacketCbFunc peerA = Some (HandlerCb AuthenticatorH)
   \<and> events (on_packet_read pktNew peerA) =
       events peerA @ [MetricOnRecv,
                       OnPacketCalled (HandlerCb AuthenticatorH) (pktNew\<lparr>sender := ID peerA\<rparr>)
                         (Put (pool peerA) (hashOfPacket pktNew))]"
proof -
  have a: "\<not> isTemporaryError EOF" "isTemporaryError (OpError True ''i/o timeout'')"
    by (simp_all add: isTemporaryError_def)
  have c: "closed peerA = 0"
    by (simp add: peerA_def newPeer_def setPacketCbFunc_def emit_def)
  have g: "getPacketCbFunc peerA = Some (HandlerCb AuthenticatorH)"
    by (simp add: peerA_def newPeer_def setPacketCbFunc_def emit_def getPacketCbFunc_def)
  show ?thesis
    using receiveRoutine_spec [of EOF None "[ReadOk pktSeen]" peerA pktNew "HandlerCb AuthenticatorH"]
      receiveRoutine_spec [of "OpError True ''i/o timeout''" None "[ReadOk pktSeen]" peerA pktNew
        "HandlerCb AuthenticatorH"] a c g
    by simp
qed

subsection \<open>The handler chain\<close>

lemma NewTransport_handlers:
  "peerHandlers (t_pd (NewTransport addr i)) = [PeerDispatcherH, ChannelNegotiatorH, AuthenticatorH]"
  "next_h (handlerObjs (t_pd (NewTransport addr i)) AuthenticatorH) = Some ChannelNegotiatorH"
  "next_h (handlerObjs (t_pd (NewTransport addr i)) ChannelNegotiatorH) = Some PeerDispatcherH"
  "next_h (handlerObjs (t_pd (NewTransport addr i)) PeerDispatcherH) = None"
  "next_h (handlerObjs (t_pd (NewTransport addr i)) (PeerToPeerH ch)) = None"
  "p2pMap (t_pd (NewTransport addr i)) = Map.empty"
  by (simp_all add: NewTransport_def newPeerDispatcher_def registPeerHandler_def setNext_def
      setSelfPeerID_def newPeerHandler_def Let_def)

text \<open>
  C1. For every connection accepted or dialed, \<open>onAccept\<close> and \<open>onConnect\<close> give the
  new peer to \<open>dispatchPeer\<close>. On the dispatcher that \<open>NewTransport\<close> builds,
  \<open>dispatchPeer\<close> sets the callbacks of the peer to the Authenticator's and calls the
  \<open>onPeer\<close> of the Authenticator, the handler registered last; the \<open>next\<close> of the
  Authenticator is the ChannelNegotiator, to which \<open>nextOnPeer\<close> passes the peer; the
  \<open>next\<close> of the ChannelNegotiator is the PeerDispatcher, whose \<open>onPeer\<close> comes
  last; the PeerDispatcher has no \<open>next\<close>. The order is Authenticator, then
  ChannelNegotiator, then PeerDispatcher.
\<close>

theorem pipeline_order:
  "dispatchPeer (t_pd (NewTransport addr i)) p =
     Return (emit (OnPeerCalled AuthenticatorH) (with_callbacks AuthenticatorH p))
   \<and> next_h (handlerObjs (t_pd (NewTransport addr i)) AuthenticatorH) = Some ChannelNegotiatorH
   \<and> nextOnPeer (t_pd (NewTransport addr i)) AuthenticatorH p =
       emit (OnPeerCalled ChannelNegotiatorH) (with_callbacks ChannelNegotiatorH p)
   \<and> next_h (handlerObjs (t_pd (NewTransport addr i)) ChannelNegotiatorH) = Some PeerDispatcherH
   \<and> nextOnPeer (t_pd (NewTransport addr i)) ChannelNegotiatorH p =
       PeerDispatcher_onPeer (t_pd (NewTransport addr i)) (with_callbacks PeerDispatcherH p)
   \<and> next_h (handlerObjs (t_pd (NewTransport addr i)) PeerDispatcherH) = None
   \<and> onAccept (t_pd (NewTransport addr i)) c =
       dispatchPeer (t_pd (NewTransport addr i)) (newPeer c None True [])
   \<and> onConnect (t_pd (NewTransport addr i)) c a d =
       dispatchPeer (t_pd (NewTransport addr i))
         ((newPeer c None False [])\<lparr>channel := d_channel d, netAddress := a\<rparr>)"
  by (simp add: NewTransport_handlers dispatchPeer_def nextOnPeer_def handler_onPeer_def
      with_callbacks_def Let_def onAccept_def onConnect_def)

text \<open>
  The order ChannelNegotiator, Authenticator, PeerDispatcher does not hold: for an
  accepted connection the peer is not handed to the ChannelNegotiator but to the
  Authenticator, and neither \<open>next\<close> is as that order has it.
\<close>

theorem pipeline_order_counterexample:
  "\<not> handed_to (onAccept (t_pd (NewTransport ''127.0.0.1:8080'' ''hxA'')) \<lparr>conn_close_result = None\<rparr>)
        ChannelNegotiatorH
   \<and> handed_to (onAccept (t_pd (NewTransport ''127.0.0.1:8080'' ''hxA'')) \<lparr>conn_close_result = None\<rparr>)
        AuthenticatorH
   \<and> next_h (handlerObjs (t_pd (NewTransport ''127.0.0.1:8080'' ''hxA'')) ChannelNegotiatorH)
        \<noteq> Some AuthenticatorH
   \<and> next_h (handlerObjs (t_pd (NewTransport ''127.0.0.1:8080'' ''hxA'')) AuthenticatorH)
        \<noteq> Some PeerDispatcherH"
  by (simp add: NewTransport_handlers handed_to_def onAccept_def dispatchPeer_def
      handler_onPeer_def Let_def newPeer_def setPacketCbFunc_def setErrorCbFunc_def
      setCloseCbFunc_def emit_def)

lemma closeReason_underscore_close: "closeReason (snd (underscore_close p)) = closeReason p"
  by (simp add: underscore_close_def Let_def emit_def getCloseCbFunc_def split: option.splits)

lemma underscore_close_IsClosed:
  "closed p = 0 \<or> closed p = 1 \<Longrightarrow> IsClosed (snd (underscore_close p))"
  by (auto simp: underscore_close_def Let_def emit_def getCloseCbFunc_def IsClosed_def
      split: option.splits)

text \<open>
  C6. \<open>PeerDispatcher.onPeer\<close> for a peer whose channel has a registered overlay sets
  the packet, error and close callbacks of the peer to the overlay's and calls the
  \<open>onPeer\<close> of the overlay, and does not close the peer. With no overlay for the
  channel it passes the error \<open>not exists PeerToPeer[channel]\<close> to \<open>pd.onError\<close>,
  which closes the peer by \<open>p.Close()\<close>: the peer is closed and no close reason is
  recorded.
\<close>

theorem PeerDispatcher_onPeer_spec:
  "(p2pMap pd (channel p) = Some p2p \<longrightarrow>
      PeerDispatcher_onPeer pd p = emit (OnPeerCalled p2p) (with_callbacks p2p p)
      \<and> getPacketCbFunc (PeerDispatcher_onPeer pd p) = Some (HandlerCb p2p)
      \<and> getErrorCbFunc (PeerDispatcher_onPeer pd p) = Some (HandlerCb p2p)
      \<and> getCloseCbFunc (PeerDispatcher_onPeer pd p) = Some (HandlerCb p2p)
      \<and> closed (PeerDispatcher_onPeer pd p) = closed p)
   \<and> (p2pMap pd (channel p) = None \<longrightarrow>
      PeerDispatcher_onPeer pd p =
        Close0 (emit (OnErrorCalled (HandlerCb PeerDispatcherH)
                        (Errorf (''not exists PeerToPeer['' @ channel p @ '']'')) None) p)
      \<and> closeReason (PeerDispatcher_onPeer pd p) = closeReason p
      \<and> (closed p = 0 \<or> closed p = 1 \<longrightarrow> IsClosed (PeerDispatcher_onPeer pd p)))"
proof -
  have a: "closed (emit e p) = closed p" "closeReason (emit e p) = closeReason p" for e
    by (simp_all add: emit_def)
  show ?thesis
    using underscore_close_IsClosed [of "emit (OnErrorCalled (HandlerCb PeerDispatcherH)
                        (Errorf (''not exists PeerToPeer['' @ channel p @ '']'')) None) p"]
    by (auto simp: PeerDispatcher_onPeer_def Let_def with_callbacks_def PeerDispatcher_onError_def
        peerHandler_onError_def Close0_def closeReason_underscore_close a
        getPacketCbFunc_def getErrorCbFunc_def getCloseCbFunc_def
        setPacketCbFunc_def setErrorCbFunc_def setCloseCbFunc_def emit_def)
qed

theorem PeerDispatcher_onPeer_spec_witness:
  "p2pMap (registPeerToPeer ''main'' (t_pd (NewTransport ''127.0.0.1:8080'' ''hxA''))) (channel (peerA\<lparr>channel := ''main''\<rparr>))
     = Some (PeerToPeerH ''main'')
   \<and> getErrorCbFunc (PeerDispatcher_onPeer
        (registPeerToPeer ''main'' (t_pd (NewTransport ''127.0.0.1:8080'' ''hxA'')))
        (peerA\<lparr>channel := ''main''\<rparr>)) = Some (HandlerCb (PeerToPeerH ''main''))
   \<and> p2pMap (t_pd (NewTransport ''127.0.0.1:8080'' ''hxA'')) (channel (peerA\<lparr>channel := ''main''\<rparr>)) = None
   \<and> (closed (peerA\<lparr>channel := ''main''\<rparr>) = 0 \<or> closed (peerA\<lparr>channel := ''main''\<rparr>) = 1)
   \<and> IsClosed (PeerDispatcher_onPeer (t_pd (NewTransport ''127.0.0.1:8080'' ''hxA''))
        (peerA\<lparr>channel := ''main''\<rparr>))
   \<and> closeReason (PeerDispatcher_onPeer (t_pd (NewTransport ''127.0.0.1:8080'' ''hxA''))
        (peerA\<lparr>channel := ''main''\<rparr>)) = []"
proof -
  have m: "p2pMap (registPeerToPeer ''main'' (t_pd (NewTransport ''127.0.0.1:8080'' ''hxA'')))
             (channel (peerA\<lparr>channel := ''main''\<rparr>)) = Some (PeerToPeerH ''main'')"
    by (simp add: registPeerToPeer_def)
  have n: "p2pMap (t_pd (NewTransport ''127.0.0.1:8080'' ''hxA'')) (channel (peerA\<lparr>channel := ''main''\<rparr>)) = None"
    by (simp add: NewTransport_handlers)
  have c: "closed (peerA\<lparr>channel := ''main''\<rparr>) = 0" "closeReason (peerA\<lparr>channel := ''main''\<rparr>) = []"
    by (simp_all add: peerA_def newPeer_def setPacketCbFunc_def emit_def)
  have g: "getErrorCbFunc (PeerDispatcher_onPeer
        (registPeerToPeer ''main'' (t_pd (NewTransport ''127.0.0.1:8080'' ''hxA'')))
        (peerA\<lparr>channel := ''main''\<rparr>)) = Some (HandlerCb (PeerToPeerH ''main''))"
    using PeerDispatcher_onPeer_spec [of "registPeerToPeer ''main'' (t_pd (NewTransport ''127.0.0.1:8080'' ''hxA''))"
        "peerA\<lparr>channel := ''main''\<rparr>" "PeerToPeerH ''main''"] m
    by blast
  have h: "closeReason (PeerDispatcher_onPeer (t_pd (NewTransport ''127.0.0.1:8080'' ''hxA''))
             (peerA\<lparr>channel := ''main''\<rparr>)) = closeReason (peerA\<lparr>channel := ''main''\<rparr>)
         \<and> IsClosed (PeerDispatcher_onPeer (t_pd (NewTransport ''127.0.0.1:8080'' ''hxA''))
             (peerA\<lparr>channel := ''main''\<rparr>))"
    using PeerDispatcher_onPeer_spec [of "t_pd (NewTransport ''127.0.0.1:8080'' ''hxA'')"
        "peerA\<lparr>channel := ''main''\<rparr>" "PeerToPeerH ''main''"] n c(1)
    by blast
  show ?thesis
    using m n c g h by simp
qed

text \<open>
  With no overlay registered, the reason \<open>no p2p for channel\<close> is not among the close
  reasons of the peer after \<open>onPeer\<close>; what the dispatcher reports is the error
  \<open>not exists PeerToPeer[main]\<close>.
\<close>

theorem PeerDispatcher_onPeer_counterexample:
  "p2pMap (t_pd (NewTransport ''127.0.0.1:8080'' ''hxA'')) (channel (peerA\<lparr>channel := ''main''\<rparr>)) = None
   \<and> ''no p2p for channel'' \<notin> set (closeReason (PeerDispatcher_onPeer
        (t_pd (NewTransport ''127.0.0.1:8080'' ''hxA'')) (peerA\<lparr>channel := ''main''\<rparr>)))
   \<and> OnErrorCalled (HandlerCb PeerDispatcherH) (Errorf ''not exists PeerToPeer[main]'') None
        \<in> set (events (PeerDispatcher_onPeer
        (t_pd (NewTransport ''127.0.0.1:8080'' ''hxA'')) (peerA\<lparr>channel := ''main''\<rparr>)))"
  by (simp add: NewTransport_handlers PeerDispatcher_onPeer_def Let_def PeerDispatcher_onError_def
      peerHandler_onError_def Close0_def closeReason_underscore_close emit_def
      underscore_close_def getCloseCbFunc_def peerA_def newPeer_def setPacketCbFunc_def)

subsection \<open>State sync\<close>

text \<open>
  C7. \<open>client.hasNode\<close> and \<open>client.requestNodeData\<close> on a peer \<open>p\<close> make one
  \<open>Unicast\<close> to \<open>p.id\<close>, of the encoded request whose \<open>reqID\<close> is
  \<open>p.reqID + 1\<close>. When the \<open>Unicast\<close> fails the function returns that error and
  the peer is as before, its \<open>reqID\<close> and its \<open>timer\<close> included. When it succeeds
  the function returns nil, \<open>p.reqID\<close> is \<open>p.reqID + 1\<close> and \<open>p.timer\<close> is a timer
  of 300 ms whose function calls \<open>expired\<close> with \<open>receiveTimeExpired\<close>, nil bytes
  and the reply protocol: \<open>protoResult\<close> for \<open>hasNode\<close>, \<open>protoNodeData\<close> for
  \<open>requestNodeData\<close>.
\<close>

theorem request_spec:
  "ph_calls (cl_ph (snd (snd (hasNode enc cl p wsHash prHash nrHash vh)))) =
     ph_calls (cl_ph cl) @ [(protoHasNode, enc (hasNodeMsg (reqID p + 1) wsHash vh prHash nrHash), sp_id p)]
   \<and> (ph_result (cl_ph cl) protoHasNode (enc (hasNodeMsg (reqID p + 1) wsHash vh prHash nrHash)) (sp_id p)
        = Some err \<longrightarrow>
        fst (hasNode enc cl p wsHash prHash nrHash vh) = Some err
        \<and> fst (snd (hasNode enc cl p wsHash prHash nrHash vh)) = p)
   \<and> (ph_result (cl_ph cl) protoHasNode (enc (hasNodeMsg (reqID p + 1) wsHash vh prHash nrHash)) (sp_id p)
        = None \<longrightarrow>
        fst (hasNode enc cl p wsHash prHash nrHash vh) = None
        \<and> fst (snd (hasNode enc cl p wsHash prHash nrHash vh)) =
            p\<lparr>reqID := reqID p + 1,
              timer := Some \<lparr>timer_ms = 300, expired_msgType = receiveTimeExpired,
                             expired_pi = protoResult, expired_b = None\<rparr>\<rparr>)
   \<and> ph_calls (cl_ph (snd (snd (requestNodeData enc cl p hash t)))) =
       ph_calls (cl_ph cl) @ [(protoRequestNodeData, enc (requestNodeDataMsg (reqID p + 1) t hash), sp_id p)]
   \<and> (ph_result (cl_ph cl) protoRequestNodeData (enc (requestNodeDataMsg (reqID p + 1) t hash)) (sp_id p)
        = Some err \<longrightarrow>
        fst (requestNodeData enc cl p hash t) = Some err
        \<and> fst (snd (requestNodeData enc cl p hash t)) = p)
   \<and> (ph_result (cl_ph cl) protoRequestNodeData (enc (requestNodeDataMsg (reqID p + 1) t hash)) (sp_id p)
        = None \<longrightarrow>
        fst (requestNodeData enc cl p hash t) = None
        \<and> fst (snd (requestNodeData enc cl p hash t)) =
            p\<lparr>reqID := reqID p + 1,
              timer := Some \<lparr>timer_ms = 300, expired_msgType = receiveTimeExpired,
                             expired_pi = protoNodeData, expired_b = None\<rparr>\<rparr>)"
  by (simp add: hasNode_def requestNodeData_def Unicast_def Let_def AfterFunc_def
      configExpiredTime_def split: option.splits)

text \<open>
  C10. \<open>Manager.OnReceive\<close> returns \<open>(false, nil)\<close> for every protocol, payload and
  peer id, and changes neither the pool nor \<open>syncing\<close>. A message from an id that is
  not in the pool changes nothing. For a peer of the pool, \<open>protoHasNode\<close> and
  \<open>protoRequestNodeData\<close> go to the server, \<open>protoResult\<close> and
  \<open>protoNodeData\<close> go to the syncer when \<open>syncing\<close> is true and nowhere when it is
  false, and any other protocol goes nowhere.
\<close>

theorem OnReceive_spec:
  "fst (OnReceive m pi b i) = (False, None)
   \<and> (getPeer (m_pool m) i = None \<longrightarrow> snd (OnReceive m pi b i) = m)
   \<and> m_pool (snd (OnReceive m pi b i)) = m_pool m
   \<and> syncing (snd (OnReceive m pi b i)) = syncing m
   \<and> (getPeer (m_pool m) i = Some p \<longrightarrow>
        m_calls (snd (OnReceive m pi b i)) =
          m_calls m @
            (if pi = protoHasNode \<or> pi = protoRequestNodeData then [ServerOnReceive pi b p]
             else if (pi = protoResult \<or> pi = protoNodeData) \<and> syncing m then [SyncerOnReceive pi b p]
             else []))"
  by (cases pi) (simp_all add: OnReceive_def split: option.splits)


theorem request_spec_witness:
  "ph_result (cl_ph clientFail) protoHasNode (encId (hasNodeMsg (reqID syncPeerA + 1) [] [] [] []))
     (sp_id syncPeerA) = Some ErrNotAvailable
   \<and> fst (hasNode encId clientFail syncPeerA [] [] [] []) = Some ErrNotAvailable
   \<and> fst (snd (hasNode encId clientFail syncPeerA [] [] [] [])) = syncPeerA
   \<and> ph_result (cl_ph clientOk) protoRequestNodeData
        (encId (requestNodeDataMsg (reqID syncPeerA + 1) 0 [])) (sp_id syncPeerA) = None
   \<and> fst (requestNodeData encId clientOk syncPeerA [] 0) = None
   \<and> reqID (fst (snd (requestNodeData encId clientOk syncPeerA [] 0))) = 42
   \<and> timer (fst (snd (requestNodeData encId clientOk syncPeerA [] 0))) =
       Some \<lparr>timer_ms = 300, expired_msgType = 1, expired_pi = protoNodeData, expired_b = None\<rparr>"
proof -
  have f: "ph_result (cl_ph clientFail) protoHasNode
             (encId (hasNodeMsg (reqID syncPeerA + 1) [] [] [] [])) (sp_id syncPeerA)
           = Some ErrNotAvailable"
    by (simp add: clientFail_def)
  have k: "ph_result (cl_ph clientOk) protoRequestNodeData
             (encId (requestNodeDataMsg (reqID syncPeerA + 1) 0 [])) (sp_id syncPeerA) = None"
    by (simp add: clientOk_def)
  have a: "fst (hasNode encId clientFail syncPeerA [] [] [] []) = Some ErrNotAvailable
           \<and> fst (snd (hasNode encId clientFail syncPeerA [] [] [] [])) = syncPeerA"
    using request_spec [of encId clientFail syncPeerA "[]" "[]" "[]" "[]" ErrNotAvailable] f
    by blast
  have b: "fst (requestNodeData encId clientOk syncPeerA [] 0) = None
           \<and> fst (snd (requestNodeData encId clientOk syncPeerA [] 0)) =
               syncPeerA\<lparr>reqID := reqID syncPeerA + 1,
                 timer := Some \<lparr>timer_ms = 300, expired_msgType = receiveTimeExpired,
                                expired_pi = protoNodeData, expired_b = None\<rparr>\<rparr>"
    using request_spec [of encId clientOk syncPeerA _ _ _ _ _ "[]" 0] k
    by blast
  have r: "reqID syncPeerA + 1 = 42"
    by (simp add: syncPeerA_def)
  show ?thesis
    using f k a b r by (simp add: receiveTimeExpired_def)
qed

theorem OnReceive_spec_witness:
  "getPeer (m_pool managerA) (Some ''hxZ'') = None
   \<and> OnReceive managerA protoHasNode [1] (Some ''hxZ'') = ((False, None), managerA)
   \<and> getPeer (m_pool managerA) (Some ''hxA'') = Some syncPeerA
   \<and> m_calls (snd (OnReceive managerA protoResult [1] (Some ''hxA''))) = []
   \<and> m_calls (snd (OnReceive (managerA\<lparr>syncing := True\<rparr>) protoResult [1] (Some ''hxA''))) =
       [SyncerOnReceive protoResult [1] syncPeerA]
   \<and> m_calls (snd (OnReceive managerA protoHasNode [1] (Some ''hxA''))) =
       [ServerOnReceive protoHasNode [1] syncPeerA]"
proof -
  have n: "getPeer (m_pool managerA) (Some ''hxZ'') = None"
    by (simp add: managerA_def getPeer_def syncPeerA_def)
  have g: "getPeer (m_pool managerA) (Some ''hxA'') = Some syncPeerA"
    "getPeer (m_pool (managerA\<lparr>syncing := True\<rparr>)) (Some ''hxA'') = Some syncPeerA"
    by (simp_all add: managerA_def getPeer_def syncPeerA_def)
  have c: "m_calls managerA = []" "\<not> syncing managerA"
    by (simp_all add: managerA_def)
  have 1: "OnReceive managerA protoHasNode [1] (Some ''hxZ'') = ((False, None), managerA)"
    using OnReceive_spec [of managerA protoHasNode "[1]" "Some ''hxZ''" syncPeerA] n
    by (simp add: prod_eq_iff)
  have 2: "m_calls (snd (OnReceive managerA protoResult [1] (Some ''hxA''))) = []"
    using OnReceive_spec [of managerA protoResult "[1]" "Some ''hxA''" syncPeerA] g c
    by simp
  have 3: "m_calls (snd (OnReceive (managerA\<lparr>syncing := True\<rparr>) protoResult [1] (Some ''hxA''))) =
       [SyncerOnReceive protoResult [1] syncPeerA]"
    using OnReceive_spec [of "managerA\<lparr>syncing := True\<rparr>" protoResult "[1]" "Some ''hxA''" syncPeerA] g c
    by simp
  have 4: "m_calls (snd (OnReceive managerA protoHasNode [1] (Some ''hxA''))) =
       [ServerOnReceive protoHasNode [1] syncPeerA]"
    using OnReceive_spec [of managerA protoHasNode "[1]" "Some ''hxA''" syncPeerA] g c
    by simp
  show ?thesis
    using n g(1) 1 2 3 4 by simp
qed

subsection \<open>Validating a network address\<close>

lemma ParseUint_step_nondigit:
  "\<not> is_digit c \<Longrightarrow> ParseUint_step c n = Inl (0, Some ErrSyntax)"
  by (auto simp: ParseUint_step_def is_digit_def Let_def)

lemma ParseUint_step_alt:
  assumes "is_digit c"
  shows "ParseUint_step c n =
     (if maxUint64 div 10 + 1 \<le> n then Inl (maxUint64, Some ErrRange)
      else if (n * 10 mod (maxUint64 + 1) + digit_value c) mod (maxUint64 + 1)
                < n * 10 mod (maxUint64 + 1)
              \<or> maxUint64 < (n * 10 mod (maxUint64 + 1) + digit_value c) mod (maxUint64 + 1)
           then Inl (maxUint64, Some ErrRange)
           else Inr ((n * 10 mod (maxUint64 + 1) + digit_value c) mod (maxUint64 + 1)))"
proof -
  have "48 \<le> (of_char c :: nat)" "(of_char c :: nat) \<le> 57" "\<not> 10 \<le> (of_char c :: nat) - 48"
    using assms by (auto simp: is_digit_def)
  then show ?thesis
    unfolding ParseUint_step_def Let_def digit_value_def by simp
qed

lemma ParseUint_step_digit:
  assumes "is_digit c" and "n \<le> maxUint64"
  shows "ParseUint_step c n =
           (if 10 * n + digit_value c \<le> maxUint64 then Inr (10 * n + digit_value c)
            else Inl (maxUint64, Some ErrRange))"
proof -
  define d where "d = digit_value c"
  have d: "d < 10"
    using assms(1) by (auto simp: is_digit_def digit_value_def d_def)
  note alt = ParseUint_step_alt [OF assms(1), of n, folded d_def]
  show ?thesis
  proof (cases "maxUint64 div 10 + 1 \<le> n")
    case True
    then have "\<not> 10 * n + d \<le> maxUint64"
      by (simp add: maxUint64_def)
    then show ?thesis
      using True by (simp add: alt d_def [symmetric])
  next
    case False
    then have n10: "n * 10 mod Suc maxUint64 = 10 * n"
      by (simp add: maxUint64_def)
    show ?thesis
    proof (cases "10 * n + d \<le> maxUint64")
      case True
      then have "(10 * n + d) mod Suc maxUint64 = 10 * n + d"
        by simp
      then show ?thesis
        using True False
        by (simp add: alt n10 d_def [symmetric])
    next
      case over: False
      have lt: "10 * n + d < 2 * Suc maxUint64"
        using False d by (simp add: maxUint64_def)
      have "(10 * n + d) mod Suc maxUint64 = 10 * n + d - Suc maxUint64"
        using over lt by (simp add: mod_if le_mod_geq)
      moreover have "10 * n + d - Suc maxUint64 < 10 * n"
        using over d by (simp add: maxUint64_def)
      ultimately have "(10 * n + d) mod Suc maxUint64 < 10 * n"
        by simp
      then show ?thesis
        using over False
        by (simp add: alt n10 d_def [symmetric])
    qed
  qed
qed

lemma digits_from_ge: "n \<le> digits_from n ds"
proof (induction ds arbitrary: n)
  case Nil
  show ?case by (simp add: digits_from_def)
next
  case (Cons c cs)
  have "n \<le> 10 * n + digit_value c" by simp
  also have "\<dots> \<le> digits_from (10 * n + digit_value c) cs" by (rule Cons.IH)
  finally show ?case by (simp add: digits_from_def)
qed

lemma ParseUint_loop_result:
  assumes "n \<le> maxUint64"
  shows "ParseUint_loop ds n =
           (if list_all is_digit ds \<and> digits_from n ds \<le> maxUint64 then (digits_from n ds, None)
            else ParseUint_loop ds n)
         \<and> (snd (ParseUint_loop ds n) = None \<longrightarrow>
               list_all is_digit ds \<and> digits_from n ds \<le> maxUint64)
         \<and> (snd (ParseUint_loop ds n) \<noteq> None \<longrightarrow>
               ParseUint_loop ds n = (0, Some ErrSyntax)
               \<or> ParseUint_loop ds n = (maxUint64, Some ErrRange))"
  using assms
proof (induction ds arbitrary: n)
  case Nil
  then show ?case by (simp add: digits_from_def)
next
  case (Cons c cs)
  show ?case
  proof (cases "is_digit c")
    case False
    then show ?thesis
      by (simp add: ParseUint_step_nondigit)
  next
    case True
    show ?thesis
    proof (cases "10 * n + digit_value c \<le> maxUint64")
      case le: True
      have s: "ParseUint_loop (c # cs) n = ParseUint_loop cs (10 * n + digit_value c)"
        using True le Cons.prems by (simp add: ParseUint_step_digit)
      have f: "digits_from n (c # cs) = digits_from (10 * n + digit_value c) cs"
        by (simp add: digits_from_def)
      show ?thesis
        unfolding s f using Cons.IH [OF le] True by simp
    next
      case over: False
      have s: "ParseUint_loop (c # cs) n = (maxUint64, Some ErrRange)"
        using True over Cons.prems by (simp add: ParseUint_step_digit)
      have "\<not> digits_from n (c # cs) \<le> maxUint64"
        using over digits_from_ge [of "10 * n + digit_value c" cs]
        by (simp add: digits_from_def)
      then show ?thesis
        unfolding s by simp
    qed
  qed
qed

lemma ParseUint_cases:
  "(s \<noteq> [] \<and> list_all is_digit s \<and> digits_from 0 s \<le> maxUint64
      \<and> ParseUint s = (digits_from 0 s, None))
   \<or> (\<not> (s \<noteq> [] \<and> list_all is_digit s \<and> digits_from 0 s \<le> maxUint64)
      \<and> (ParseUint s = (0, Some ErrSyntax) \<or> ParseUint s = (maxUint64, Some ErrRange)))"
proof (cases "s = []")
  case True
  then show ?thesis by (simp add: ParseUint_def)
next
  case False
  have z: "(0::nat) \<le> maxUint64" by simp
  note r = ParseUint_loop_result [OF z, of s]
  show ?thesis
  proof (cases "snd (ParseUint_loop s 0) = None")
    case True
    then have "list_all is_digit s \<and> digits_from 0 s \<le> maxUint64" using r by blast
    then show ?thesis using r False by (simp add: ParseUint_def)
  next
    case ne: False
    then have e: "ParseUint_loop s 0 = (0, Some ErrSyntax)
               \<or> ParseUint_loop s 0 = (maxUint64, Some ErrRange)" using r by blast
    have "\<not> (list_all is_digit s \<and> digits_from 0 s \<le> maxUint64)"
    proof
      assume "list_all is_digit s \<and> digits_from 0 s \<le> maxUint64"
      then have "ParseUint_loop s 0 = (digits_from 0 s, None)" using r by simp
      then show False using ne by simp
    qed
    then show ?thesis using e False by (auto simp: ParseUint_def)
  qed
qed


lemma to_int64_id: "- (2 ^ 63) \<le> x \<Longrightarrow> x < 2 ^ 63 \<Longrightarrow> to_int64 x = x"
  by (simp add: to_int64_def)

lemma to_int64_min: "to_int64 (2 ^ 63) = - (2 ^ 63)"
  by (simp add: to_int64_def)

lemma to_int64_neg:
  assumes "0 \<le> x" and "x \<le> 2 ^ 63"
  shows "to_int64 (- to_int64 x) = - x"
proof (cases "x = 2 ^ 63")
  case True
  then show ?thesis by (simp add: to_int64_def)
next
  case False
  then have "x < 2 ^ 63" using assms(2) by simp
  then show ?thesis using assms(1) by (simp add: to_int64_id)
qed

lemma ParseInt_unsigned:
  assumes "hd s \<noteq> CHR ''-''" and "s \<noteq> []"
    and "s1 = (if hd s = CHR ''+'' then tl s else s)"
  shows "(ParseInt s = Inr i) =
           (unsigned_decimal s1 = Some i \<and> - (2 ^ 63) \<le> i \<and> i < 2 ^ 63)"
proof -
  have p: "ParseInt s =
     (case ParseUint s1 of
        (un, err) \<Rightarrow>
          if err \<noteq> None \<and> err \<noteq> Some ErrRange then Inl (the err)
          else if (2 :: nat) ^ 63 \<le> un then Inl ErrRange
          else Inr (to_int64 (int un)))"
    using assms by (simp add: ParseInt_def Let_def split: prod.splits)
  from ParseUint_cases [of s1] consider
      (good) "s1 \<noteq> []" "list_all is_digit s1" "digits_from 0 s1 \<le> maxUint64"
             "ParseUint s1 = (digits_from 0 s1, None)"
    | (bad) "\<not> (s1 \<noteq> [] \<and> list_all is_digit s1 \<and> digits_from 0 s1 \<le> maxUint64)"
            "ParseUint s1 = (0, Some ErrSyntax) \<or> ParseUint s1 = (maxUint64, Some ErrRange)"
    by blast
  then show ?thesis
  proof cases
    case good
    note g = good(1-3) and r = good(4)
    have u: "unsigned_decimal s1 = Some (int (digits_from 0 s1))"
      using g by (simp add: unsigned_decimal_def)
    show ?thesis
    proof (cases "(2 :: nat) ^ 63 \<le> digits_from 0 s1")
      case True
      then have "\<not> int (digits_from 0 s1) < 2 ^ 63" by simp
      then show ?thesis using True by (auto simp: p r u)
    next
      case False
      then have "int (digits_from 0 s1) < 2 ^ 63" by simp
      then show ?thesis
        using False by (auto simp: p r u to_int64_id)
    qed
  next
    case bad
    note b = bad(1) and r = bad(2)
    have l: "ParseInt s \<noteq> Inr i"
      using r by (auto simp: p maxUint64_def)
    have "\<not> (unsigned_decimal s1 = Some i \<and> - (2 ^ 63) \<le> i \<and> i < 2 ^ 63)"
    proof
      assume a: "unsigned_decimal s1 = Some i \<and> - (2 ^ 63) \<le> i \<and> i < 2 ^ 63"
      then have "s1 \<noteq> []" "list_all is_digit s1" "i = int (digits_from 0 s1)"
        by (auto simp: unsigned_decimal_def split: if_splits)
      moreover from this b have "\<not> digits_from 0 s1 \<le> maxUint64" by simp
      ultimately show False using a by (simp add: maxUint64_def)
    qed
    then show ?thesis using l by simp
  qed
qed

lemma ParseInt_negative:
  assumes "s = CHR ''-'' # s1"
  shows "(ParseInt s = Inr i) =
           (map_option uminus (unsigned_decimal s1) = Some i \<and> - (2 ^ 63) \<le> i \<and> i < 2 ^ 63)"
proof -
  have p: "ParseInt s =
     (case ParseUint s1 of
        (un, err) \<Rightarrow>
          if err \<noteq> None \<and> err \<noteq> Some ErrRange then Inl (the err)
          else if (2 :: nat) ^ 63 < un then Inl ErrRange
          else Inr (to_int64 (- to_int64 (int un))))"
    using assms by (simp add: ParseInt_def Let_def split: prod.splits)
  from ParseUint_cases [of s1] consider
      (good) "s1 \<noteq> []" "list_all is_digit s1" "digits_from 0 s1 \<le> maxUint64"
             "ParseUint s1 = (digits_from 0 s1, None)"
    | (bad) "\<not> (s1 \<noteq> [] \<and> list_all is_digit s1 \<and> digits_from 0 s1 \<le> maxUint64)"
            "ParseUint s1 = (0, Some ErrSyntax) \<or> ParseUint s1 = (maxUint64, Some ErrRange)"
    by blast
  then show ?thesis
  proof cases
    case good
    note g = good(1-3) and r = good(4)
    have u: "unsigned_decimal s1 = Some (int (digits_from 0 s1))"
      using g by (simp add: unsigned_decimal_def)
    show ?thesis
    proof (cases "(2 :: nat) ^ 63 < digits_from 0 s1")
      case True
      then have "\<not> - (2 ^ 63) \<le> - int (digits_from 0 s1)" by simp
      then show ?thesis using True by (auto simp: p r u)
    next
      case False
      then have "int (digits_from 0 s1) \<le> 2 ^ 63" by simp
      then have "to_int64 (- to_int64 (int (digits_from 0 s1))) = - int (digits_from 0 s1)"
        by (simp add: to_int64_neg)
      then show ?thesis
        using False by (auto simp: p r u)
    qed
  next
    case bad
    note b = bad(1) and r = bad(2)
    have l: "ParseInt s \<noteq> Inr i"
      using r by (auto simp: p maxUint64_def)
    have "\<not> (map_option uminus (unsigned_decimal s1) = Some i \<and> - (2 ^ 63) \<le> i \<and> i < 2 ^ 63)"
    proof
      assume a: "map_option uminus (unsigned_decimal s1) = Some i \<and> - (2 ^ 63) \<le> i \<and> i < 2 ^ 63"
      then have "s1 \<noteq> []" "list_all is_digit s1" "i = - int (digits_from 0 s1)"
        by (auto simp: unsigned_decimal_def split: if_splits)
      moreover from this b have "\<not> digits_from 0 s1 \<le> maxUint64" by simp
      ultimately show False using a by (simp add: maxUint64_def)
    qed
    then show ?thesis using l by simp
  qed
qed

lemma ParseInt_decimal:
  "(ParseInt s = Inr i) = (decimal_integer s = Some i \<and> - (2 ^ 63) \<le> i \<and> i < 2 ^ 63)"
proof (cases s)
  case Nil
  then show ?thesis by (simp add: ParseInt_def decimal_integer_def)
next
  case (Cons c cs)
  show ?thesis
  proof (cases "c = CHR ''-''")
    case True
    then show ?thesis
      using ParseInt_negative [of s cs i] Cons by (simp add: decimal_integer_def)
  next
    case False
    then show ?thesis
      using ParseInt_unsigned [of s "if c = CHR ''+'' then cs else s" i] Cons
      by (simp add: decimal_integer_def)
  qed
qed

lemma Validate_examples:
  "Validate ''127.0.0.1:8080'' = None"
  "Validate ''[::1]:65535'' = None"
  "Validate ''node:+80'' = None"
  "Validate ''node:65536'' = Some (Errorf ''invalid port 65536'')"
  "Validate ''node:0'' = Some (Errorf ''invalid port 0'')"
  "Validate ''node:8o'' = Some ErrSyntax"
  "Validate ''node:99999999999999999999'' = Some ErrRange"
  "Validate ''::1:80'' = Some (AddrError tooManyColons)"
  "Validate ''node'' = Some (AddrError missingPort)"
  by (simp_all add: Validate_def SplitHostPort_def LastIndexByte_def split_tail_def ParseInt_def
      ParseUint_def ParseUint_step_def lower_def maxUint64_def to_int64_def Let_def)

text \<open>
  C9. For every string \<open>na\<close>, \<open>NetAddress(na).Validate()\<close> returns nil if and only
  if \<open>na\<close> splits into a host and a port and the port is a decimal integer from 1 to
  65535; for every other string (one that does not split, a port that is not a decimal
  integer, a port outside the range) it returns an error.
\<close>

theorem Validate_spec:
  "(Validate na = None) = valid_address na
   \<and> (Validate na \<noteq> None) = (\<not> valid_address na)"
proof -
  have "(Validate na = None) =
          (\<exists>host port i. SplitHostPort na = Inr (host, port) \<and> ParseInt port = Inr i
             \<and> 1 \<le> i \<and> i \<le> 65535)"
    by (auto simp: Validate_def split: sum.splits prod.splits)
  also have "\<dots> = valid_address na"
    unfolding valid_address_def ParseInt_decimal by (intro ex_cong1 iffI; simp)
  finally show ?thesis by simp
qed

end
